theory Spec2Isabelle
  imports Main "HOL-Library.Sublist"
begin

section \<open>Python strings\<close>

text \<open>
  A Python \<^verbatim>\<open>str\<close> is modelled by the list of the bytes of its UTF-8 encoding, so that
  the en dash of the last message of \<^verbatim>\<open>simplify_error_message\<close> can be written.
  \<^verbatim>\<open>str.lower()\<close> maps the ASCII letters A to Z to a to z. Two characters beyond ASCII have
  a lower-case form that holds an ASCII letter, and \<open>lower\<close> maps them as Python does:
  U+212A (the Kelvin sign, bytes E2 84 AA) to k, and U+0130 (bytes C4 B0) to i followed by
  U+0307 (bytes CC 87). Every other character beyond ASCII is left as it is; Python maps
  such a letter to another character beyond ASCII, which cannot change where an ASCII text
  occurs, since the bytes of a character beyond ASCII are all above 127.
\<close>

definition lower_char :: "char \<Rightarrow> char" where
  "lower_char c =
     (case map_of (zip ''ABCDEFGHIJKLMNOPQRSTUVWXYZ'' ''abcdefghijklmnopqrstuvwxyz'') c of
        Some d \<Rightarrow> d
      | None \<Rightarrow> c)"

function lower :: "string \<Rightarrow> string" where
  "lower [] = []"
| "lower (c # cs) =
     (if prefix [CHR 0xE2, CHR 0x84, CHR 0xAA] (c # cs)
      then CHR ''k'' # lower (drop 2 cs)
      else if prefix [CHR 0xC4, CHR 0xB0] (c # cs)
      then CHR ''i'' # CHR 0xCC # CHR 0x87 # lower (drop 1 cs)
      else lower_char c # lower cs)"
  by pat_completeness auto
termination
  by (relation "measure length") auto

declare lower.simps [simp del]

text \<open>\<^verbatim>\<open>p in s\<close> on strings: \<open>contains s p\<close> searches \<open>p\<close> at every position of \<open>s\<close>.\<close>

fun contains :: "string \<Rightarrow> string \<Rightarrow> bool" where
  "contains [] p = (p = [])"
| "contains (c # cs) p = (prefix p (c # cs) \<or> contains cs p)"

text \<open>\<^verbatim>\<open>x or ""\<close> for a value that is a string or \<^verbatim>\<open>None\<close>.\<close>

definition or_empty :: "string option \<Rightarrow> string" where
  "or_empty x = (case x of None \<Rightarrow> [] | Some s \<Rightarrow> s)"

section \<open>Fallback policy and error translation\<close>

text \<open>
  \<^verbatim>\<open>
  def should_retry_with_alt_cookie(error_text: str) -> bool:
      error_text = (error_text or "").lower()
      patterns = [ "http error 400", ... ]
      return any(p in error_text for p in patterns)
  \<close>
\<close>

definition patterns :: "string list" where
  "patterns =
     [''http error 400'',
      ''instagram api is not granting access'',
      ''instagram sent an empty media response'',
      ''login session is not accepted'',
      ''post is private/restricted'']"

definition should_retry_with_alt_cookie :: "string option \<Rightarrow> bool" where
  "should_retry_with_alt_cookie error_text =
     (let error_text = lower (or_empty error_text)
      in list_ex (\<lambda>p. contains error_text p) patterns)"

definition msg_no_video :: string where
  "msg_no_video = ''No downloadable video found (might be an image, carousel, or removed).''"

definition msg_private :: string where
  "msg_private = ''Post is private/restricted or the login session is not accepted.''"

definition msg_unable :: string where
  "msg_unable = ''Unable to extract data for this URL.''"

definition msg_broken :: string where
  "msg_broken = ''yt-dlp Instagram extractor is currently broken for this URL.''"

text \<open>The dash of the last message is U+2013, in UTF-8 the bytes E2 80 93.\<close>

definition msg_unknown :: string where
  "msg_unknown = ''Unknown error '' @ [CHR 0xE2, CHR 0x80, CHR 0x93] @ '' see server logs.''"

definition simplify_error_message :: "string option \<Rightarrow> string" where
  "simplify_error_message raw =
     (let raw_lower = lower (or_empty raw) in
      if contains raw_lower ''no video formats found'' then msg_no_video
      else if contains raw_lower ''instagram sent an empty media response'' \<or>
              contains raw_lower ''instagram api is not granting access'' \<or>
              contains raw_lower ''http error 400'' \<or>
              contains raw_lower ''login session is not accepted'' then msg_private
      else if contains raw_lower ''unable to extract data'' then msg_unable
      else if contains raw_lower ''functionality for this site has been marked as broken''
           then msg_broken
      else msg_unknown)"

section \<open>Whitespace\<close>

text \<open>
  \<^verbatim>\<open>str.strip()\<close> removes the characters for which \<^verbatim>\<open>str.isspace()\<close> holds from both ends.
  They are listed here by their UTF-8 encodings: U+0009 to U+000D, U+001C to U+0020, U+0085,
  U+00A0, U+1680, U+2000 to U+200A, U+2028, U+2029, U+202F, U+205F and U+3000.
\<close>

definition whitespace :: "string list" where
  "whitespace =
     [[CHR 0x09], [CHR 0x0A], [CHR 0x0B], [CHR 0x0C], [CHR 0x0D],
      [CHR 0x1C], [CHR 0x1D], [CHR 0x1E], [CHR 0x1F], [CHR 0x20],
      [CHR 0xC2, CHR 0x85], [CHR 0xC2, CHR 0xA0], [CHR 0xE1, CHR 0x9A, CHR 0x80],
      [CHR 0xE2, CHR 0x80, CHR 0x80], [CHR 0xE2, CHR 0x80, CHR 0x81],
      [CHR 0xE2, CHR 0x80, CHR 0x82], [CHR 0xE2, CHR 0x80, CHR 0x83],
      [CHR 0xE2, CHR 0x80, CHR 0x84], [CHR 0xE2, CHR 0x80, CHR 0x85],
      [CHR 0xE2, CHR 0x80, CHR 0x86], [CHR 0xE2, CHR 0x80, CHR 0x87],
      [CHR 0xE2, CHR 0x80, CHR 0x88], [CHR 0xE2, CHR 0x80, CHR 0x89],
      [CHR 0xE2, CHR 0x80, CHR 0x8A], [CHR 0xE2, CHR 0x80, CHR 0xA8],
      [CHR 0xE2, CHR 0x80, CHR 0xA9], [CHR 0xE2, CHR 0x80, CHR 0xAF],
      [CHR 0xE2, CHR 0x81, CHR 0x9F], [CHR 0xE3, CHR 0x80, CHR 0x80]]"

function drop_leading :: "string list \<Rightarrow> string \<Rightarrow> string" where
  "drop_leading ws s =
     (case find (\<lambda>w. w \<noteq> [] \<and> prefix w s) ws of
        None \<Rightarrow> s
      | Some w \<Rightarrow> drop_leading ws (drop (length w) s))"
  by pat_completeness auto
termination
  by (relation "measure (\<lambda>(ws, s). length s)") (auto simp: find_Some_iff prefix_def)

declare drop_leading.simps [simp del]

definition lstrip :: "string \<Rightarrow> string" where
  "lstrip s = drop_leading whitespace s"

definition rstrip :: "string \<Rightarrow> string" where
  "rstrip s = rev (drop_leading (map rev whitespace) (rev s))"

definition strip :: "string \<Rightarrow> string" where
  "strip s = rstrip (lstrip s)"

section \<open>Exceptions\<close>

text \<open>
  An exception is its class and its message; \<open>str_exn\<close> is \<^verbatim>\<open>str(e)\<close>. A function that can
  raise returns \<open>exn + 'a\<close>, with \<open>Inl\<close> for the exception.
\<close>

datatype exn =
    NameError string
  | AttributeError string
  | RuntimeError string
  | ValueError string
  | DownloadError string
  | OSError string
  | OverflowError string

fun str_exn :: "exn \<Rightarrow> string" where
  "str_exn (NameError m) = m"
| "str_exn (AttributeError m) = m"
| "str_exn (RuntimeError m) = m"
| "str_exn (ValueError m) = m"
| "str_exn (DownloadError m) = m"
| "str_exn (OSError m) = m"
| "str_exn (OverflowError m) = m"

definition bind :: "exn + 'a \<Rightarrow> ('a \<Rightarrow> exn + 'b) \<Rightarrow> exn + 'b" where
  "bind x f = (case x of Inl e \<Rightarrow> Inl e | Inr a \<Rightarrow> f a)"

definition no_attribute :: "string \<Rightarrow> string \<Rightarrow> exn" where
  "no_attribute type_name attr =
     AttributeError ([CHR 0x27] @ type_name @ [CHR 0x27] @ '' object has no attribute '' @
                     [CHR 0x27] @ attr @ [CHR 0x27])"

section \<open>JSON values\<close>

text \<open>
  What \<^verbatim>\<open>request.json()\<close> returns: \<^verbatim>\<open>None\<close>, a \<^verbatim>\<open>bool\<close>, a number (integers only here),
  a \<^verbatim>\<open>str\<close>, a \<^verbatim>\<open>list\<close> or a \<^verbatim>\<open>dict\<close> (an association list whose keys are distinct).
\<close>

datatype json =
    JNull
  | JBool bool
  | JNum int
  | JStr string
  | JArr "json list"
  | JObj "(string \<times> json) list"

fun truthy :: "json \<Rightarrow> bool" where
  "truthy JNull = False"
| "truthy (JBool b) = b"
| "truthy (JNum n) = (n \<noteq> 0)"
| "truthy (JStr s) = (s \<noteq> [])"
| "truthy (JArr xs) = (xs \<noteq> [])"
| "truthy (JObj kvs) = (kvs \<noteq> [])"

fun type_name :: "json \<Rightarrow> string" where
  "type_name JNull = ''NoneType''"
| "type_name (JBool b) = ''bool''"
| "type_name (JNum n) = ''int''"
| "type_name (JStr s) = ''str''"
| "type_name (JArr xs) = ''list''"
| "type_name (JObj kvs) = ''dict''"

text \<open>\<^verbatim>\<open>body.get(key)\<close>: only a \<^verbatim>\<open>dict\<close> has the method.\<close>

definition json_get :: "json \<Rightarrow> string \<Rightarrow> exn + json" where
  "json_get body key =
     (case body of
        JObj kvs \<Rightarrow> Inr (case map_of kvs key of None \<Rightarrow> JNull | Some v \<Rightarrow> v)
      | _ \<Rightarrow> Inl (no_attribute (type_name body) ''get''))"

text \<open>\<^verbatim>\<open>v.strip()\<close>: only a \<^verbatim>\<open>str\<close> has the method.\<close>

definition json_strip :: "json \<Rightarrow> exn + string" where
  "json_strip v =
     (case v of
        JStr s \<Rightarrow> Inr (strip s)
      | _ \<Rightarrow> Inl (no_attribute (type_name v) ''strip''))"

section \<open>Dates and times\<close>

text \<open>
  \<^verbatim>\<open>datetime.fromtimestamp(ts)\<close> gives the calendar date and the time of day of the instant
  \<open>ts\<close> (seconds since 1970-01-01 00:00:00 UTC) in the local time zone of the server, or
  raises. The platform is a parameter: \<open>gmtoff tz u\<close> is the offset of local time from UTC,
  in seconds, in force at the instant \<open>u\<close> (the field \<^verbatim>\<open>tm_gmtoff\<close> of the C library's
  \<^verbatim>\<open>localtime\<close>), and \<open>range_error tz t\<close> is the exception raised for an instant \<open>t\<close> that
  cannot be represented: \<^verbatim>\<open>ValueError\<close> with the text \<^verbatim>\<open>year ... is out of range\<close>, or
  \<^verbatim>\<open>OSError\<close> or \<^verbatim>\<open>OverflowError\<close> for instants so far away that the C library fails.
  The date of a day number is computed as \<^verbatim>\<open>_ord2ymd\<close> of \<^verbatim>\<open>datetime.py\<close> does (day 1 is
  0001-01-01; 1970-01-01 is day 719163).
\<close>

record platform =
  gmtoff :: "int \<Rightarrow> int"
  range_error :: "int \<Rightarrow> exn"

record datetime =
  year :: int
  month :: int
  day :: int
  hour :: int
  minute :: int
  second :: int

definition DAYS_IN_MONTH :: "int list" where
  "DAYS_IN_MONTH = [-1, 31, 28, 31, 30, 31, 30, 31, 31, 30, 31, 30, 31]"

definition DAYS_BEFORE_MONTH :: "int list" where
  "DAYS_BEFORE_MONTH = [-1, 0, 31, 59, 90, 120, 151, 181, 212, 243, 273, 304, 334]"

definition ord2ymd :: "int \<Rightarrow> int \<times> int \<times> int" where
  "ord2ymd ordinal =
     (let n = ordinal - 1;
          n400 = n div 146097; n = n mod 146097;
          year = n400 * 400 + 1;
          n100 = n div 36524; n = n mod 36524;
          n4 = n div 1461; n = n mod 1461;
          n1 = n div 365; n = n mod 365;
          year = year + n100 * 100 + n4 * 4 + n1
      in if n1 = 4 \<or> n100 = 4 then (year - 1, 12, 31)
         else
           (let leapyear = (n1 = 3 \<and> (n4 \<noteq> 24 \<or> n100 = 3));
                month = (n + 50) div 32;
                preceding = DAYS_BEFORE_MONTH ! nat month +
                            (if month > 2 \<and> leapyear then 1 else 0)
            in if preceding > n
               then (let month = month - 1;
                         preceding = preceding - (DAYS_IN_MONTH ! nat month +
                                       (if month = 2 \<and> leapyear then 1 else 0))
                     in (year, month, n - preceding + 1))
               else (year, month, n - preceding + 1)))"

definition digit_char :: "nat \<Rightarrow> char" where
  "digit_char d = ''0123456789'' ! d"

function decimal :: "int \<Rightarrow> string" where
  "decimal n = (if 10 \<le> n then decimal (n div 10) else []) @ [digit_char (nat (n mod 10))]"
  by pat_completeness auto
termination
  by (relation "measure nat") auto

declare decimal.simps [simp del]

definition show_int :: "int \<Rightarrow> string" where
  "show_int i = (if i < 0 then ''-'' @ decimal (- i) else decimal i)"

definition zfill :: "nat \<Rightarrow> string \<Rightarrow> string" where
  "zfill width s = replicate (width - length s) (CHR ''0'') @ s"

text \<open>
  CPython accepts an instant when its local year lies in 1 to 9999
  (\<^verbatim>\<open>MINYEAR\<close> to \<^verbatim>\<open>MAXYEAR\<close>), and so does the local year of each instant that it probes
  to find out whether the local time is the second of two equal wall-clock times (a fold):
  the instant 24 hours earlier and, when the offset from UTC has gone down within these 24
  hours, the instant that lies earlier by that amount.
\<close>

definition local_seconds :: "platform \<Rightarrow> int \<Rightarrow> int" where
  "local_seconds tz u = u + gmtoff tz u"

definition representable :: "platform \<Rightarrow> int \<Rightarrow> bool" where
  "representable tz u =
     (let (y, m, d) = ord2ymd (local_seconds tz u div 86400 + 719163)
      in 1 \<le> y \<and> y \<le> 9999)"

definition fromtimestamp :: "platform \<Rightarrow> int \<Rightarrow> exn + datetime" where
  "fromtimestamp tz t =
     (let result_seconds = local_seconds tz t;
          probe_seconds = local_seconds tz (t - 86400);
          transition = result_seconds - probe_seconds - 86400
      in if representable tz t \<and> representable tz (t - 86400) \<and>
            (0 \<le> transition \<or> representable tz (t + transition))
         then (let (y, m, d) = ord2ymd (result_seconds div 86400 + 719163);
                   s = result_seconds mod 86400
               in Inr \<lparr>year = y, month = m, day = d,
                        hour = s div 3600, minute = s mod 3600 div 60, second = s mod 60\<rparr>)
         else Inl (range_error tz t))"

text \<open>
  \<^verbatim>\<open>strftime\<close> with the directives the program uses, as the C library of Linux prints
  them: \<^verbatim>\<open>%Y\<close> is the year in decimal digits, with no padding; \<^verbatim>\<open>%m\<close>, \<^verbatim>\<open>%d\<close>, \<^verbatim>\<open>%H\<close>,
  \<^verbatim>\<open>%M\<close> and \<^verbatim>\<open>%S\<close> are two digits each, padded with a zero.
\<close>

definition directive :: "datetime \<Rightarrow> char \<Rightarrow> string" where
  "directive dt c =
     (if c = CHR ''Y'' then show_int (year dt)
      else if c = CHR ''m'' then zfill 2 (show_int (month dt))
      else if c = CHR ''d'' then zfill 2 (show_int (day dt))
      else if c = CHR ''H'' then zfill 2 (show_int (hour dt))
      else if c = CHR ''M'' then zfill 2 (show_int (minute dt))
      else if c = CHR ''S'' then zfill 2 (show_int (second dt))
      else [CHR ''%'', c])"

fun strftime :: "datetime \<Rightarrow> string \<Rightarrow> string" where
  "strftime dt [] = []"
| "strftime dt [c] = [c]"
| "strftime dt (c # d # cs) =
     (if c = CHR ''%'' then directive dt d @ strftime dt cs else c # strftime dt (d # cs))"

section \<open>The metadata fetcher\<close>

text \<open>
  The record that \<^verbatim>\<open>extract_info\<close> of the extraction library returns, with the keys the
  program reads; a key that is missing or \<^verbatim>\<open>None\<close> is \<open>None\<close>.
\<close>

record info =
  timestamp :: "int option"
  view_count :: "int option"
  comment_count :: "int option"
  like_count :: "int option"
  uploader :: "string option"
  uploader_id :: "string option"

record meta =
  plays :: "int option"
  comments :: "int option"
  likes :: "int option"
  pub_date :: "string option"
  pub_time :: "string option"
  insta_id :: "string option"

text \<open>
  The extraction library is a parameter: \<open>extract_info w url cookie_file\<close> is the outcome of
  \<^verbatim>\<open>YoutubeDL({..., "cookiefile": cookie_file}).extract_info(url, download=False)\<close> in the
  state \<open>w\<close> of the world outside the program (the network, the site), the exception raised
  or the record returned, with the state of the world afterwards.
  \<^verbatim>\<open>
  ts = info.get("timestamp")
  pub_date = datetime.fromtimestamp(ts).strftime("%Y-%m-%d") if ts else None
  pub_time = datetime.fromtimestamp(ts).strftime("%H:%M:%S") if ts else None
  return {"plays": info.get("view_count"), ...,
          "insta_id": info.get("uploader") or info.get("uploader_id")}
  \<close>
\<close>

definition formatted :: "platform \<Rightarrow> int option \<Rightarrow> string \<Rightarrow> exn + string option" where
  "formatted tz ts fmt =
     (case ts of
        None \<Rightarrow> Inr None
      | Some t \<Rightarrow>
          if t \<noteq> 0
          then bind (fromtimestamp tz t) (\<lambda>dt. Inr (Some (strftime dt fmt)))
          else Inr None)"

definition get_instagram_metadata ::
  "('w \<Rightarrow> string \<Rightarrow> string \<Rightarrow> (exn + info) \<times> 'w) \<Rightarrow> platform \<Rightarrow>
   'w \<Rightarrow> string \<Rightarrow> string \<Rightarrow> (exn + meta) \<times> 'w" where
  "get_instagram_metadata extract_info tz w url cookie_file =
     (case extract_info w url cookie_file of
        (Inl e, w') \<Rightarrow> (Inl e, w')
      | (Inr info, w') \<Rightarrow>
          (let ts = timestamp info
           in (bind (formatted tz ts ''%Y-%m-%d'') (\<lambda>pub_date.
               bind (formatted tz ts ''%H:%M:%S'') (\<lambda>pub_time.
               Inr \<lparr>plays = view_count info,
                    comments = comment_count info,
                    likes = like_count info,
                    pub_date = pub_date,
                    pub_time = pub_time,
                    insta_id = (case uploader info of
                                  None \<Rightarrow> uploader_id info
                                | Some u \<Rightarrow> if u \<noteq> [] then Some u else uploader_id info)\<rparr>)),
               w')))"

section \<open>The HTTP endpoint\<close>

text \<open>
  A request is the outcome of \<^verbatim>\<open>await request.json()\<close>: the exception raised for a body that
  is not JSON, or the value parsed. A response is \<^verbatim>\<open>JSONResponse(content, status_code)\<close>; the
  content always has the same seven keys.
\<close>

type_synonym request = "exn + json"

record content =
  resp_plays :: json
  resp_comments :: json
  resp_likes :: json
  resp_pub_date :: string
  resp_pub_time :: string
  resp_insta_id :: string
  resp_error :: string

record response =
  content :: content
  status_code :: nat

definition error_response :: "string \<Rightarrow> nat \<Rightarrow> response" where
  "error_response err code =
     \<lparr>content = \<lparr>resp_plays = JStr [], resp_comments = JStr [], resp_likes = JStr [],
                  resp_pub_date = [], resp_pub_time = [], resp_insta_id = [],
                  resp_error = err\<rparr>,
      status_code = code\<rparr>"

text \<open>
  The loop over \<^verbatim>\<open>enumerate(cookie_pool)\<close>, with the local variables of the handler as its
  state. \<open>world\<close> is the state of the world outside, \<open>calls\<close> lists the cookie files that
  \<open>fetch\<close> has been called with, in order; \<open>n\<close> is \<^verbatim>\<open>len(cookie_pool)\<close>.
  \<^verbatim>\<open>
  for cookie_idx, cookie_file in enumerate(cookie_pool):
      try:
          meta = get_instagram_metadata(link, cookie_file)
          success = True
          break
      except Exception as e:
          last_error_raw = str(e)
          if cookie_idx == 0 and len(cookie_pool) > 1 and should_retry_with_alt_cookie(last_error_raw):
              continue
          else:
              break
  \<close>
\<close>

record 'w loop_state =
  last_error_raw :: "string option"
  success :: bool
  meta :: "meta option"
  world :: 'w
  calls :: "string list"

fun cookie_loop ::
  "('w \<Rightarrow> string \<Rightarrow> string \<Rightarrow> (exn + meta) \<times> 'w) \<Rightarrow> string \<Rightarrow> nat \<Rightarrow>
   (nat \<times> string) list \<Rightarrow> 'w loop_state \<Rightarrow> 'w loop_state" where
  "cookie_loop fetch link n [] st = st"
| "cookie_loop fetch link n ((cookie_idx, cookie_file) # rest) st =
     (case fetch (world st) link cookie_file of
        (Inr m, w') \<Rightarrow>
          st\<lparr>meta := Some m, success := True, world := w',
             calls := calls st @ [cookie_file]\<rparr>
      | (Inl e, w') \<Rightarrow>
          (let st' = st\<lparr>last_error_raw := Some (str_exn e), world := w',
                        calls := calls st @ [cookie_file]\<rparr>
           in if cookie_idx = 0 \<and> n > 1 \<and> should_retry_with_alt_cookie (last_error_raw st')
              then cookie_loop fetch link n rest st'
              else st'))"

definition run_loop ::
  "('w \<Rightarrow> string \<Rightarrow> string \<Rightarrow> (exn + meta) \<times> 'w) \<Rightarrow> string list \<Rightarrow> 'w \<Rightarrow> string \<Rightarrow>
   'w loop_state" where
  "run_loop fetch cookie_pool w link =
     cookie_loop fetch link (length cookie_pool) (enumerate 0 cookie_pool)
       \<lparr>last_error_raw = None, success = False, meta = None, world = w, calls = []\<rparr>"

text \<open>The lines after the loop: the response for the failure and for the success.\<close>

definition count_field :: "int option \<Rightarrow> json" where
  "count_field c = (case c of None \<Rightarrow> JStr [] | Some n \<Rightarrow> JNum n)"

definition respond :: "'w loop_state \<Rightarrow> exn + response" where
  "respond st =
     (if \<not> success st
      then Inr (error_response (simplify_error_message (last_error_raw st)) 200)
      else
        (case meta st of
           None \<Rightarrow> Inl (no_attribute ''NoneType'' ''get'')
         | Some m \<Rightarrow>
             Inr \<lparr>content =
                    \<lparr>resp_plays = count_field (plays m),
                     resp_comments = count_field (comments m),
                     resp_likes = count_field (likes m),
                     resp_pub_date = or_empty (pub_date m),
                     resp_pub_time = or_empty (pub_time m),
                     resp_insta_id = or_empty (insta_id m),
                     resp_error = []\<rparr>,
                  status_code = 200\<rparr>))"

text \<open>
  The handler of \<^verbatim>\<open>POST /instagram-metadata\<close>. \<open>Inl\<close> is an exception that leaves the
  handler; the second component is the state of the world afterwards.
\<close>

definition instagram_metadata ::
  "('w \<Rightarrow> string \<Rightarrow> string \<Rightarrow> (exn + meta) \<times> 'w) \<Rightarrow> string list \<Rightarrow> 'w \<Rightarrow> request \<Rightarrow>
   (exn + response) \<times> 'w" where
  "instagram_metadata fetch cookie_pool w request =
     (case request of
        Inl e \<Rightarrow> (Inr (error_response ''Invalid JSON body.'' 400), w)
      | Inr body \<Rightarrow>
          (case bind (json_get body ''link'')
                  (\<lambda>v. json_strip (if truthy v then v else JStr [])) of
             Inl e \<Rightarrow> (Inl e, w)
           | Inr link \<Rightarrow>
               if link = [] then (Inr (error_response ''No link provided.'' 400), w)
               else if cookie_pool = []
               then (Inr (error_response
                            ''No valid Instagram cookie files found on server.'' 500), w)
               else (let st = run_loop fetch cookie_pool w link
                     in (respond st, world st))))"

section \<open>Start of the process\<close>

text \<open>
  The names that are bound in the module when its line 36 runs: what lines 1 to 9 import
  and what lines 15 to 20 define.
\<close>

definition module_names :: "string list" where
  "module_names =
     [''os'', ''threading'', ''datetime'', ''st'', ''FastAPI'', ''Request'', ''JSONResponse'',
      ''uvicorn'', ''YoutubeDL'', ''COOKIE_FILE_MAIN'', ''COOKIE_FILE_ALT'',
      ''write_cookie_from_secret'']"

definition COOKIE_FILE_MAIN :: string where
  "COOKIE_FILE_MAIN = ''/tmp/www.instagram.com_cookies_main.txt''"

definition COOKIE_FILE_ALT :: string where
  "COOKIE_FILE_ALT = ''/tmp/www.instagram.com_cookies_alt.txt''"

text \<open>
  The secrets are a map from keys to texts, the file system a map from paths to the contents
  of the files.
  \<^verbatim>\<open>
  value = st.secrets.get(secret_key, "")
  if not value or not str(value).strip():
      if os.path.exists(path):
          os.remove(path)
      return False
  Path(path).write_text(value, encoding="utf-8")
  return True
  \<close>
  The last statement looks the name \<^verbatim>\<open>Path\<close> up in the module.
\<close>

definition write_cookie_from_secret ::
  "(string \<rightharpoonup> string) \<Rightarrow> (string \<rightharpoonup> string) \<Rightarrow> string \<Rightarrow> string \<Rightarrow>
   (exn + bool) \<times> (string \<rightharpoonup> string)" where
  "write_cookie_from_secret secrets fs secret_key path =
     (let value = (case secrets secret_key of None \<Rightarrow> [] | Some v \<Rightarrow> v)
      in if value = [] \<or> strip value = []
         then (Inr False, if fs path \<noteq> None then fs(path := None) else fs)
         else if ''Path'' \<in> set module_names
         then (Inr True, fs(path \<mapsto> value))
         else (Inl (NameError (''name '' @ [CHR 0x27] @ ''Path'' @ [CHR 0x27] @
                               '' is not defined'')), fs))"

text \<open>
  Lines 36 to 53: the result is the exception that stops the process or the cookie pool.
\<close>

definition startup ::
  "(string \<rightharpoonup> string) \<Rightarrow> (string \<rightharpoonup> string) \<Rightarrow> (exn + string list) \<times> (string \<rightharpoonup> string)" where
  "startup secrets fs =
     (case write_cookie_from_secret secrets fs ''INSTAGRAM_COOKIE_MAIN'' COOKIE_FILE_MAIN of
        (Inl e, fs1) \<Rightarrow> (Inl e, fs1)
      | (Inr main_ok, fs1) \<Rightarrow>
          (case write_cookie_from_secret secrets fs1 ''INSTAGRAM_COOKIE_ALT'' COOKIE_FILE_ALT of
             (Inl e, fs2) \<Rightarrow> (Inl e, fs2)
           | (Inr alt_ok, fs2) \<Rightarrow>
               if \<not> main_ok
               then (Inl (RuntimeError
                            (''INSTAGRAM_COOKIE_MAIN is not set or empty in Streamlit secrets. '' @
                             ''Set it in the app'' @ [CHR 0x27] @ ''s Secrets section.'')), fs2)
               else (Inr ([COOKIE_FILE_MAIN] @ (if alt_ok then [COOKIE_FILE_ALT] else [])),
                     fs2)))"

section \<open>The orchestrator, as the specification describes it\<close>

text \<open>
  Section 4.5 of the specification: try the first credential; on success stop; on failure
  record the raw error and go on to the second credential only if the pool has more than
  one entry and the fallback policy accepts the error; after the second attempt stop.
  \<open>spec_resolve\<close> gives the values of the variables of the handler at the end, with no
  loop: at most two calls of \<open>fetch\<close>, on the pool's entries 0 and 1.
\<close>

definition spec_resolve ::
  "('w \<Rightarrow> string \<Rightarrow> string \<Rightarrow> (exn + meta) \<times> 'w) \<Rightarrow> string list \<Rightarrow> 'w \<Rightarrow> string \<Rightarrow>
   'w loop_state" where
  "spec_resolve fetch cookie_pool w link =
     (case fetch w link (cookie_pool ! 0) of
        (Inr m, w1) \<Rightarrow>
          \<lparr>last_error_raw = None, success = True, meta = Some m, world = w1,
           calls = [cookie_pool ! 0]\<rparr>
      | (Inl e, w1) \<Rightarrow>
          if 1 < length cookie_pool \<and> should_retry_with_alt_cookie (Some (str_exn e))
          then (case fetch w1 link (cookie_pool ! 1) of
                  (Inr m, w2) \<Rightarrow>
                    \<lparr>last_error_raw = Some (str_exn e), success = True, meta = Some m,
                     world = w2, calls = [cookie_pool ! 0, cookie_pool ! 1]\<rparr>
                | (Inl e', w2) \<Rightarrow>
                    \<lparr>last_error_raw = Some (str_exn e'), success = False, meta = None,
                     world = w2, calls = [cookie_pool ! 0, cookie_pool ! 1]\<rparr>)
          else \<lparr>last_error_raw = Some (str_exn e), success = False, meta = None, world = w1,
                calls = [cookie_pool ! 0]\<rparr>)"

section \<open>The shape of a printed date\<close>

text \<open>
  \<open>matches pattern s\<close>: the text \<open>s\<close> has the length of the pattern, a decimal digit
  wherever the pattern has the letter D, and the pattern's own character elsewhere. The
  format \<^verbatim>\<open>YYYY-MM-DD\<close> is the pattern \<^verbatim>\<open>DDDD-DD-DD\<close>, the format \<^verbatim>\<open>HH:MM:SS\<close> is the
  pattern \<^verbatim>\<open>DD:DD:DD\<close>.
\<close>

definition is_digit :: "char \<Rightarrow> bool" where
  "is_digit c = (c \<in> set ''0123456789'')"

definition matches :: "string \<Rightarrow> string \<Rightarrow> bool" where
  "matches pattern s =
     list_all2 (\<lambda>p c. if p = CHR ''D'' then is_digit c else c = p) pattern s"

section \<open>String search\<close>

text \<open>
  The search of \<open>contains\<close> finds \<open>p\<close> exactly when \<open>s\<close> can be cut into a part before
  \<open>p\<close>, \<open>p\<close> itself and a part after it.
\<close>

lemma contains_iff_sublist: "contains s p \<longleftrightarrow> sublist p s"
  by (induction s) (simp_all add: sublist_Cons_right)

lemma contains_iff_cut: "contains s p \<longleftrightarrow> (\<exists>before after. s = before @ p @ after)"
  by (simp add: contains_iff_sublist sublist_def)

text \<open>
  Lower-casing works on one character at a time: the lower-cased form of a text that is
  put between two others stands in the lower-cased whole, as long as the text does not begin
  with a byte that could end a character begun before it.
\<close>

lemma lower_Cons_plain:
  assumes "c \<noteq> CHR 0xE2" and "c \<noteq> CHR 0xC4"
  shows "lower (c # cs) = lower_char c # lower cs"
proof -
  from assms have "\<not> prefix [CHR 0xE2, CHR 0x84, CHR 0xAA] (c # cs)"
    and "\<not> prefix [CHR 0xC4, CHR 0xB0] (c # cs)"
    by auto
  then show ?thesis
    by (simp only: lower.simps if_False)
qed

lemma lower_plain_append:
  "\<forall>c \<in> set u. c \<noteq> CHR 0xE2 \<and> c \<noteq> CHR 0xC4 \<Longrightarrow>
     lower (u @ rest) = map lower_char u @ lower rest"
  by (induction u) (simp_all add: lower_Cons_plain lower.simps(1))

lemma lower_step:
  assumes "rest = [] \<or> hd rest \<notin> {CHR 0x84, CHR 0xAA, CHR 0xB0}"
  shows "lower ((c # b) @ rest) =
           (if prefix [CHR 0xE2, CHR 0x84, CHR 0xAA] (c # b)
            then CHR ''k'' # lower (drop 2 b @ rest)
            else if prefix [CHR 0xC4, CHR 0xB0] (c # b)
            then CHR ''i'' # CHR 0xCC # CHR 0x87 # lower (drop 1 b @ rest)
            else lower_char c # lower (b @ rest))"
proof -
  have kelvin: "prefix [CHR 0xE2, CHR 0x84, CHR 0xAA] (c # b @ rest) \<longleftrightarrow>
                prefix [CHR 0xE2, CHR 0x84, CHR 0xAA] (c # b)"
  proof (cases b)
    case Nil
    with assms show ?thesis
      by (cases rest) auto
  next
    case b: (Cons x b')
    show ?thesis
    proof (cases b')
      case Nil
      with b assms show ?thesis
        by (cases rest) auto
    next
      case (Cons y b'')
      with b show ?thesis
        by simp
    qed
  qed
  have dotted: "prefix [CHR 0xC4, CHR 0xB0] (c # b @ rest) \<longleftrightarrow>
                prefix [CHR 0xC4, CHR 0xB0] (c # b)"
  proof (cases b)
    case Nil
    with assms show ?thesis
      by (cases rest) auto
  next
    case (Cons x b')
    then show ?thesis
      by simp
  qed
  have drop2: "prefix [CHR 0xE2, CHR 0x84, CHR 0xAA] (c # b) \<Longrightarrow>
               drop 2 (b @ rest) = drop 2 b @ rest"
    by (auto simp: prefix_def)
  have drop1: "prefix [CHR 0xC4, CHR 0xB0] (c # b) \<Longrightarrow>
               drop 1 (b @ rest) = drop 1 b @ rest"
    by (auto simp: prefix_def)
  show ?thesis
  proof (cases "prefix [CHR 0xE2, CHR 0x84, CHR 0xAA] (c # b)")
    case True
    with kelvin have "lower (c # b @ rest) = CHR ''k'' # lower (drop 2 (b @ rest))"
      by (simp only: lower.simps if_True)
    with True show ?thesis
      by (simp only: append_Cons if_True drop2 [OF True])
  next
    case no_kelvin: False
    show ?thesis
    proof (cases "prefix [CHR 0xC4, CHR 0xB0] (c # b)")
      case True
      with no_kelvin kelvin dotted
      have "lower (c # b @ rest) = CHR ''i'' # CHR 0xCC # CHR 0x87 # lower (drop 1 (b @ rest))"
        by (simp only: lower.simps if_True if_False)
      with no_kelvin True show ?thesis
        by (simp only: append_Cons if_True if_False drop1 [OF True])
    next
      case False
      with no_kelvin kelvin dotted
      have "lower (c # b @ rest) = lower_char c # lower (b @ rest)"
        by (simp only: lower.simps if_False)
      with no_kelvin False show ?thesis
        by (simp only: append_Cons if_False)
    qed
  qed
qed

lemma lower_skip:
  assumes "rest = [] \<or> hd rest \<notin> {CHR 0x84, CHR 0xAA, CHR 0xB0}"
  shows "\<exists>pre. lower (before @ rest) = pre @ lower rest"
proof (induction before rule: length_induct)
  case (1 before)
  show ?case
  proof (cases before)
    case Nil
    then show ?thesis
      by simp
  next
    case (Cons c b)
    from 1 Cons obtain p2 where p2: "lower (drop 2 b @ rest) = p2 @ lower rest"
      by fastforce
    from 1 Cons obtain p1 where p1: "lower (drop 1 b @ rest) = p1 @ lower rest"
      by fastforce
    from 1 Cons obtain p0 where p0: "lower (b @ rest) = p0 @ lower rest"
      by fastforce
    have "lower (before @ rest) =
            (if prefix [CHR 0xE2, CHR 0x84, CHR 0xAA] (c # b) then CHR ''k'' # p2
             else if prefix [CHR 0xC4, CHR 0xB0] (c # b)
             then CHR ''i'' # CHR 0xCC # CHR 0x87 # p1
             else lower_char c # p0) @ lower rest"
      unfolding Cons lower_step [OF assms] p0 p1 p2 by simp
    then show ?thesis
      by blast
  qed
qed

lemma lower_plain:
  assumes "set (lower u) \<subseteq> A" and "CHR ''k'' \<notin> A" and "CHR ''i'' \<notin> A"
  shows "lower u = map lower_char u"
  using assms(1)
proof (induction u rule: lower.induct)
  case 1
  show ?case
    by (simp add: lower.simps(1))
next
  case (2 c cs)
  have no_kelvin: "\<not> prefix [CHR 0xE2, CHR 0x84, CHR 0xAA] (c # cs)"
  proof
    assume "prefix [CHR 0xE2, CHR 0x84, CHR 0xAA] (c # cs)"
    then have "lower (c # cs) = CHR ''k'' # lower (drop 2 cs)"
      by (simp only: lower.simps if_True)
    with "2.prems" assms(2) show False
      by simp
  qed
  have no_dotted: "\<not> prefix [CHR 0xC4, CHR 0xB0] (c # cs)"
  proof
    assume "prefix [CHR 0xC4, CHR 0xB0] (c # cs)"
    with no_kelvin have "lower (c # cs) = CHR ''i'' # CHR 0xCC # CHR 0x87 # lower (drop 1 cs)"
      by (simp only: lower.simps if_True if_False)
    with "2.prems" assms(3) show False
      by simp
  qed
  from no_kelvin no_dotted have eq: "lower (c # cs) = lower_char c # lower cs"
    by (simp only: lower.simps if_False)
  with "2.prems" have "set (lower cs) \<subseteq> A"
    by simp
  with no_kelvin no_dotted "2.IH"(3) have "lower cs = map lower_char cs"
    by blast
  with eq show ?case
    by simp
qed

lemma lower_kelvin:
  "lower (''Mar'' @ [CHR 0xE2, CHR 0x84, CHR 0xAA] @ ''ED as Broken'') = ''marked as broken''"
  by code_simp

lemma lower_ascii_pattern:
  assumes "lower u = p" and "p \<noteq> []" and "CHR ''k'' \<notin> set p" and "CHR ''i'' \<notin> set p"
    and "\<forall>c \<in> {CHR 0xE2, CHR 0xC4, CHR 0x84, CHR 0xAA, CHR 0xB0}. c \<notin> set p"
  shows "sublist p (lower (before @ u @ after))"
proof -
  have "lower_char (CHR 0xE2) = CHR 0xE2" "lower_char (CHR 0xC4) = CHR 0xC4"
    "lower_char (CHR 0x84) = CHR 0x84" "lower_char (CHR 0xAA) = CHR 0xAA"
    "lower_char (CHR 0xB0) = CHR 0xB0"
    by code_simp+
  then have fixed: "lower_char c = c"
    if "c \<in> {CHR 0xE2, CHR 0xC4, CHR 0x84, CHR 0xAA, CHR 0xB0}" for c
    using that by blast
  from assms(1,3,4) have m: "map lower_char u = p"
    using lower_plain [of u "set p"] by simp
  have plain: "c \<notin> {CHR 0xE2, CHR 0xC4, CHR 0x84, CHR 0xAA, CHR 0xB0}" if "c \<in> set u" for c
  proof
    assume special: "c \<in> {CHR 0xE2, CHR 0xC4, CHR 0x84, CHR 0xAA, CHR 0xB0}"
    from that m have "lower_char c \<in> set p"
      by auto
    with fixed [OF special] have "c \<in> set p"
      by simp
    with special assms(5) show False
      by blast
  qed
  from m assms(2) have "u \<noteq> []"
    by auto
  then have "hd u \<in> set u"
    by simp
  from plain [OF this] \<open>u \<noteq> []\<close>
  have "u @ after = [] \<or> hd (u @ after) \<notin> {CHR 0x84, CHR 0xAA, CHR 0xB0}"
    by simp
  from lower_skip [OF this, of before]
  obtain pre where "lower (before @ u @ after) = pre @ lower (u @ after)"
    by blast
  moreover have "lower (u @ after) = map lower_char u @ lower after"
    using plain by (intro lower_plain_append) blast
  ultimately have "lower (before @ u @ after) = pre @ p @ lower after"
    by (simp add: m)
  then show ?thesis
    by (simp only: sublist_appendI)
qed

lemma lower_http_error_400: "lower ''HTTP Error 400'' = ''http error 400''"
  by code_simp

section \<open>The fallback policy\<close>

text \<open>
  C2. \<open>should_retry_with_alt_cookie\<close> is true exactly when the lower-cased text holds one
  of the five fixed substrings; it is false for \<^verbatim>\<open>None\<close> and for the empty string; a text
  that holds \<^verbatim>\<open>http error 400\<close> in any mix of upper and lower case is matched,
  whatever stands around it.
\<close>

theorem should_retry_with_alt_cookie_spec:
  "(should_retry_with_alt_cookie (Some s) \<longleftrightarrow>
      sublist ''http error 400'' (lower s) \<or>
      sublist ''instagram api is not granting access'' (lower s) \<or>
      sublist ''instagram sent an empty media response'' (lower s) \<or>
      sublist ''login session is not accepted'' (lower s) \<or>
      sublist ''post is private/restricted'' (lower s)) \<and>
   \<not> should_retry_with_alt_cookie None \<and>
   \<not> should_retry_with_alt_cookie (Some []) \<and>
   (lower u = ''http error 400'' \<longrightarrow>
      should_retry_with_alt_cookie (Some (before @ u @ after)))"
proof -
  have iff: "should_retry_with_alt_cookie (Some t) \<longleftrightarrow>
      sublist ''http error 400'' (lower t) \<or>
      sublist ''instagram api is not granting access'' (lower t) \<or>
      sublist ''instagram sent an empty media response'' (lower t) \<or>
      sublist ''login session is not accepted'' (lower t) \<or>
      sublist ''post is private/restricted'' (lower t)" for t
    by (simp add: should_retry_with_alt_cookie_def patterns_def or_empty_def Let_def
        contains_iff_sublist)
  have none: "\<not> should_retry_with_alt_cookie None"
    by (simp add: should_retry_with_alt_cookie_def patterns_def or_empty_def lower.simps(1))
  have empty: "\<not> should_retry_with_alt_cookie (Some [])"
    by (simp add: should_retry_with_alt_cookie_def patterns_def or_empty_def lower.simps(1))
  have upper: "should_retry_with_alt_cookie (Some (before @ u @ after))"
    if u: "lower u = ''http error 400''"
  proof -
    have "sublist ''http error 400'' (lower (before @ u @ after))"
      using u by (rule lower_ascii_pattern) simp_all
    then show ?thesis
      by (simp only: iff simp_thms)
  qed
  from iff none empty upper show ?thesis
    by blast
qed

theorem should_retry_with_alt_cookie_spec_witness:
  "should_retry_with_alt_cookie (Some ''ERROR: HTTP Error 400: Bad Request'') \<and>
   \<not> should_retry_with_alt_cookie None"
  using should_retry_with_alt_cookie_spec [of "[]" "''HTTP Error 400''" "''ERROR: ''"
      "'': Bad Request''"] lower_http_error_400
  by simp

section \<open>The error translator\<close>

lemma simplify_error_message_cases:
  "simplify_error_message (Some s) =
     (if sublist ''no video formats found'' (lower s) then msg_no_video
      else if sublist ''instagram sent an empty media response'' (lower s) \<or>
              sublist ''instagram api is not granting access'' (lower s) \<or>
              sublist ''http error 400'' (lower s) \<or>
              sublist ''login session is not accepted'' (lower s) then msg_private
      else if sublist ''unable to extract data'' (lower s) then msg_unable
      else if sublist ''functionality for this site has been marked as broken'' (lower s)
           then msg_broken
      else msg_unknown)"
  by (simp add: simplify_error_message_def or_empty_def Let_def contains_iff_sublist)

lemma simplify_error_message_None: "simplify_error_message None = msg_unknown"
  by (simp add: simplify_error_message_def or_empty_def lower.simps(1))

lemma simplify_error_message_empty: "simplify_error_message (Some []) = msg_unknown"
  by (simp add: simplify_error_message_def or_empty_def lower.simps(1))

lemma simplify_error_message_range:
  "simplify_error_message raw \<in> {msg_no_video, msg_private, msg_unable, msg_broken, msg_unknown}"
  by (simp add: simplify_error_message_def Let_def)

lemma messages_nonempty:
  "msg_no_video \<noteq> []" "msg_private \<noteq> []" "msg_unable \<noteq> []" "msg_broken \<noteq> []"
  "msg_unknown \<noteq> []"
  by (simp_all add: msg_no_video_def msg_private_def msg_unable_def msg_broken_def
      msg_unknown_def)

lemma simplify_error_message_kelvin:
  "simplify_error_message
     (Some (''ERROR: functionality for this site has been mar'' @
            [CHR 0xE2, CHR 0x84, CHR 0xAA] @ ''ed as broken'')) = msg_broken"
  by code_simp

lemma sublist_eval: "sublist p s \<longleftrightarrow> contains s p"
  by (simp add: contains_iff_sublist)


text \<open>
  C3. \<open>simplify_error_message\<close> returns a non-empty message for every input, \<^verbatim>\<open>None\<close> and
  the empty string included. The first rule of the table that matches decides: the
  substring of rule 1 gives its message whatever else the text holds, a substring of rule 2
  gives its message when rule 1 does not match, the substring of rule 3 when neither rule 1
  nor rule 2 matches (also when the substring of rule 4 is there too). When none of the
  seven substrings occurs, the result is the unknown-error message.
\<close>

theorem simplify_error_message_first_match:
  "simplify_error_message raw \<noteq> [] \<and>
   simplify_error_message (Some []) \<noteq> [] \<and>
   (sublist ''no video formats found'' (lower s) \<longrightarrow>
      simplify_error_message (Some s) =
        ''No downloadable video found (might be an image, carousel, or removed).'') \<and>
   (\<not> sublist ''no video formats found'' (lower s) \<and>
    (sublist ''instagram sent an empty media response'' (lower s) \<or>
     sublist ''instagram api is not granting access'' (lower s) \<or>
     sublist ''http error 400'' (lower s) \<or>
     sublist ''login session is not accepted'' (lower s)) \<longrightarrow>
      simplify_error_message (Some s) =
        ''Post is private/restricted or the login session is not accepted.'') \<and>
   (\<not> sublist ''no video formats found'' (lower s) \<and>
    \<not> sublist ''instagram sent an empty media response'' (lower s) \<and>
    \<not> sublist ''instagram api is not granting access'' (lower s) \<and>
    \<not> sublist ''http error 400'' (lower s) \<and>
    \<not> sublist ''login session is not accepted'' (lower s) \<and>
    sublist ''unable to extract data'' (lower s) \<longrightarrow>
      simplify_error_message (Some s) = ''Unable to extract data for this URL.'') \<and>
   (\<not> sublist ''no video formats found'' (lower s) \<and>
    \<not> sublist ''instagram sent an empty media response'' (lower s) \<and>
    \<not> sublist ''instagram api is not granting access'' (lower s) \<and>
    \<not> sublist ''http error 400'' (lower s) \<and>
    \<not> sublist ''login session is not accepted'' (lower s) \<and>
    \<not> sublist ''unable to extract data'' (lower s) \<and>
    \<not> sublist ''functionality for this site has been marked as broken'' (lower s) \<longrightarrow>
      simplify_error_message (Some s) =
        ''Unknown error '' @ [CHR 0xE2, CHR 0x80, CHR 0x93] @ '' see server logs.'')"
  (is "?total \<and> ?empty \<and> ?rule1 \<and> ?rule2 \<and> ?rule3 \<and> ?none")
proof -
  have total: "simplify_error_message x \<noteq> []" for x
    using simplify_error_message_range [of x] messages_nonempty by auto
  have rule1: ?rule1
    by (simp add: simplify_error_message_cases msg_no_video_def)
  have rule2: ?rule2
    by (simp add: simplify_error_message_cases msg_private_def)
  have rule3: ?rule3
    by (simp add: simplify_error_message_cases msg_unable_def)
  have none: ?none
    by (simp add: simplify_error_message_cases msg_unknown_def)
  from total [of raw] total [of "Some []"] rule1 rule2 rule3 none show ?thesis
    by (intro conjI)
qed


theorem simplify_error_message_first_match_witness:
  "simplify_error_message (Some ''HTTP Error 400: No video formats found'') =
     ''No downloadable video found (might be an image, carousel, or removed).'' \<and>
   simplify_error_message (Some ''Unable to extract data; HTTP Error 400'') =
     ''Post is private/restricted or the login session is not accepted.'' \<and>
   simplify_error_message (Some ''Marked as broken; Unable to extract data'') =
     ''Unable to extract data for this URL.'' \<and>
   simplify_error_message (Some ''Connection reset by peer'') =
     ''Unknown error '' @ [CHR 0xE2, CHR 0x80, CHR 0x93] @ '' see server logs.''"
proof (intro conjI)
  have l: "lower ''HTTP Error 400: No video formats found'' =
             ''http error 400: no video formats found''"
    by code_simp
  show "simplify_error_message (Some ''HTTP Error 400: No video formats found'') =
     ''No downloadable video found (might be an image, carousel, or removed).''"
    by (rule simplify_error_message_first_match
              [of None "''HTTP Error 400: No video formats found''",
               THEN conjunct2, THEN conjunct2, THEN conjunct1, THEN mp])
       (simp add: l sublist_eval)
next
  have l: "lower ''Unable to extract data; HTTP Error 400'' =
             ''unable to extract data; http error 400''"
    by code_simp
  show "simplify_error_message (Some ''Unable to extract data; HTTP Error 400'') =
     ''Post is private/restricted or the login session is not accepted.''"
    by (rule simplify_error_message_first_match
              [of None "''Unable to extract data; HTTP Error 400''",
               THEN conjunct2, THEN conjunct2, THEN conjunct2, THEN conjunct1, THEN mp])
       (simp add: l sublist_eval)
next
  have l: "lower ''Marked as broken; Unable to extract data'' =
             ''marked as broken; unable to extract data''"
    by code_simp
  show "simplify_error_message (Some ''Marked as broken; Unable to extract data'') =
     ''Unable to extract data for this URL.''"
    by (rule simplify_error_message_first_match
              [of None "''Marked as broken; Unable to extract data''",
               THEN conjunct2, THEN conjunct2, THEN conjunct2, THEN conjunct2,
               THEN conjunct1, THEN mp])
       (simp add: l sublist_eval)
next
  have l: "lower ''Connection reset by peer'' = ''connection reset by peer''"
    by code_simp
  show "simplify_error_message (Some ''Connection reset by peer'') =
     ''Unknown error '' @ [CHR 0xE2, CHR 0x80, CHR 0x93] @ '' see server logs.''"
    by (rule simplify_error_message_first_match
              [of None "''Connection reset by peer''",
               THEN conjunct2, THEN conjunct2, THEN conjunct2, THEN conjunct2,
               THEN conjunct2, THEN mp])
       (simp add: l sublist_eval)
qed

text \<open>
  C4, as the specification states it: a text that matches rule 4 and no earlier rule is
  translated to \<^verbatim>\<open>Extractor is currently broken for this URL.\<close> The message of the
  program names the extraction library, so the stated text is not what is returned.
\<close>

theorem simplify_error_message_broken_counterexample:
  "sublist ''functionality for this site has been marked as broken''
     (lower ''functionality for this site has been marked as broken'') \<and>
   simplify_error_message (Some ''functionality for this site has been marked as broken'')
     \<noteq> ''Extractor is currently broken for this URL.''"
  by code_simp

text \<open>
  C4, amended: a text whose lower-cased form holds
  \<^verbatim>\<open>functionality for this site has been marked as broken\<close> and none of the substrings
  of the earlier rules is translated to
  \<^verbatim>\<open>yt-dlp Instagram extractor is currently broken for this URL.\<close>
\<close>

theorem simplify_error_message_broken:
  assumes "sublist ''functionality for this site has been marked as broken'' (lower s)"
    and "\<not> sublist ''no video formats found'' (lower s)"
    and "\<not> sublist ''instagram sent an empty media response'' (lower s)"
    and "\<not> sublist ''instagram api is not granting access'' (lower s)"
    and "\<not> sublist ''http error 400'' (lower s)"
    and "\<not> sublist ''login session is not accepted'' (lower s)"
    and "\<not> sublist ''unable to extract data'' (lower s)"
  shows "simplify_error_message (Some s) =
           ''yt-dlp Instagram extractor is currently broken for this URL.''"
  using assms by (simp add: simplify_error_message_cases msg_broken_def)

theorem simplify_error_message_broken_witness:
  "simplify_error_message
     (Some ''ERROR: The functionality for this site has been marked as broken'') =
   ''yt-dlp Instagram extractor is currently broken for this URL.''"
proof -
  have l: "lower ''ERROR: The functionality for this site has been marked as broken'' =
             ''error: the functionality for this site has been marked as broken''"
    by code_simp
  show ?thesis
    by (rule simplify_error_message_broken) (simp_all add: l sublist_eval)
qed

section \<open>The loop over the cookie pool\<close>

lemma run_loop_Cons:
  "run_loop fetch (c0 # rest) w link = spec_resolve fetch (c0 # rest) w link"
proof (cases "fetch w link c0")
  case (Pair r0 w1)
  show ?thesis
  proof (cases r0)
    case (Inr m)
    with Pair show ?thesis
      by (simp add: run_loop_def spec_resolve_def)
  next
    case (Inl e)
    show ?thesis
    proof (cases rest)
      case Nil
      with Pair Inl show ?thesis
        by (simp add: run_loop_def spec_resolve_def)
    next
      case (Cons c1 more)
      obtain r1 w2 where f1: "fetch w1 link c1 = (r1, w2)"
        by (cases "fetch w1 link c1")
      with Pair Inl Cons show ?thesis
        by (cases r1) (simp_all add: run_loop_def spec_resolve_def)
    qed
  qed
qed


lemma run_loop_spec:
  "cookie_pool \<noteq> [] \<Longrightarrow> run_loop fetch cookie_pool w link = spec_resolve fetch cookie_pool w link"
  by (cases cookie_pool) (simp_all only: run_loop_Cons list.simps)

lemma spec_resolve_calls:
  assumes "cookie_pool \<noteq> []"
  shows "prefix (calls (spec_resolve fetch cookie_pool w link)) cookie_pool"
    and "1 \<le> length (calls (spec_resolve fetch cookie_pool w link))"
    and "length (calls (spec_resolve fetch cookie_pool w link)) \<le> 2"
proof -
  obtain c0 rest where pool: "cookie_pool = c0 # rest"
    using assms by (cases cookie_pool) auto
  show "prefix (calls (spec_resolve fetch cookie_pool w link)) cookie_pool"
    by (cases rest) (auto simp: spec_resolve_def pool split: prod.splits sum.splits)
  show "1 \<le> length (calls (spec_resolve fetch cookie_pool w link))"
    by (auto simp: spec_resolve_def split: prod.splits sum.splits)
  show "length (calls (spec_resolve fetch cookie_pool w link)) \<le> 2"
    by (auto simp: spec_resolve_def split: prod.splits sum.splits)
qed

lemma spec_resolve_second:
  "length (calls (spec_resolve fetch cookie_pool w link)) = 2 \<longleftrightarrow>
     1 < length cookie_pool \<and>
     (\<exists>e w1. fetch w link (cookie_pool ! 0) = (Inl e, w1) \<and>
             should_retry_with_alt_cookie (Some (str_exn e)))"
  by (auto simp: spec_resolve_def split: prod.splits sum.splits)

lemma spec_resolve_first_success:
  "fetch w link (cookie_pool ! 0) = (Inr m, w1) \<Longrightarrow>
     spec_resolve fetch cookie_pool w link =
       \<lparr>last_error_raw = None, success = True, meta = Some m, world = w1,
        calls = [cookie_pool ! 0]\<rparr>"
  by (simp add: spec_resolve_def)

lemma spec_resolve_failure:
  "\<not> success (spec_resolve fetch cookie_pool w link) \<Longrightarrow>
     \<exists>raw. last_error_raw (spec_resolve fetch cookie_pool w link) = Some raw \<and>
           respond (spec_resolve fetch cookie_pool w link) =
             Inr (error_response (simplify_error_message (Some raw)) 200)"
  by (auto simp: spec_resolve_def respond_def split: prod.splits sum.splits if_splits)

text \<open>
  C1. For a pool that is not empty the loop ends in the state that \<open>spec_resolve\<close>
  describes. The cookie files tried are the first one or the first two of the pool, in the
  pool's order, and never more than two. The second is tried exactly when the pool has more
  than one entry and the first attempt raised an exception whose text the fallback policy
  accepts. A first attempt that succeeds ends the loop with its record, after one call. When
  no attempt succeeds, the answer is the translation of the raw error recorded last, with
  status 200.
\<close>

theorem cookie_loop_two_attempts:
  assumes "cookie_pool \<noteq> []"
  shows
    "run_loop fetch cookie_pool w link = spec_resolve fetch cookie_pool w link \<and>
     prefix (calls (run_loop fetch cookie_pool w link)) cookie_pool \<and>
     1 \<le> length (calls (run_loop fetch cookie_pool w link)) \<and>
     length (calls (run_loop fetch cookie_pool w link)) \<le> 2 \<and>
     (length (calls (run_loop fetch cookie_pool w link)) = 2 \<longleftrightarrow>
        1 < length cookie_pool \<and>
        (\<exists>e w1. fetch w link (cookie_pool ! 0) = (Inl e, w1) \<and>
                should_retry_with_alt_cookie (Some (str_exn e)))) \<and>
     (\<forall>m w1. fetch w link (cookie_pool ! 0) = (Inr m, w1) \<longrightarrow>
        run_loop fetch cookie_pool w link =
          \<lparr>last_error_raw = None, success = True, meta = Some m, world = w1,
           calls = [cookie_pool ! 0]\<rparr>) \<and>
     (\<not> success (run_loop fetch cookie_pool w link) \<longrightarrow>
        (\<exists>raw. last_error_raw (run_loop fetch cookie_pool w link) = Some raw \<and>
               respond (run_loop fetch cookie_pool w link) =
                 Inr (error_response (simplify_error_message (Some raw)) 200)))"
  unfolding run_loop_spec [OF assms]
  using spec_resolve_calls [OF assms, of fetch w link]
    spec_resolve_second [of fetch cookie_pool w link]
    spec_resolve_first_success [of fetch w link cookie_pool]
    spec_resolve_failure [of fetch cookie_pool w link]
  by blast


theorem cookie_loop_two_attempts_witness:
  "calls (run_loop
            (\<lambda>w url cookie_file.
               (if cookie_file = ''main'' then Inl (DownloadError ''HTTP Error 400: Bad Request'')
                else Inl (DownloadError ''No video formats found''), Suc w))
            [''main'', ''alt'', ''other''] 0 ''https://www.instagram.com/reel/abc/'') =
     [''main'', ''alt''] \<and>
   respond (run_loop
            (\<lambda>w url cookie_file.
               (if cookie_file = ''main'' then Inl (DownloadError ''HTTP Error 400: Bad Request'')
                else Inl (DownloadError ''No video formats found''), Suc w))
            [''main'', ''alt'', ''other''] 0 ''https://www.instagram.com/reel/abc/'') =
     Inr (error_response
            ''No downloadable video found (might be an image, carousel, or removed).'' 200) \<and>
   calls (run_loop
            (\<lambda>w url cookie_file.
               (Inr \<lparr>plays = Some 100, comments = Some 2, likes = Some 10, pub_date = None,
                     pub_time = None, insta_id = None\<rparr>, Suc w))
            [''main'', ''alt''] (0::nat) ''https://www.instagram.com/reel/abc/'') = [''main'']"
proof -
  let ?F = "\<lambda>(w::nat) (url::string) cookie_file.
               (if cookie_file = ''main''
                then Inl (DownloadError ''HTTP Error 400: Bad Request'') :: exn + meta
                else Inl (DownloadError ''No video formats found''), Suc w)"
  let ?m = "\<lparr>plays = Some 100, comments = Some 2, likes = Some 10, pub_date = None,
             pub_time = None, insta_id = None\<rparr>"
  let ?G = "\<lambda>(w::nat) (url::string) (cookie_file::string). (Inr ?m :: exn + meta, Suc w)"
  let ?pool = "[''main'', ''alt'', ''other'']"
  let ?url = "''https://www.instagram.com/reel/abc/''"
  have ne: "?pool \<noteq> []" and ne2: "[''main'', ''alt''] \<noteq> []"
    by simp_all
  have retry: "should_retry_with_alt_cookie (Some ''HTTP Error 400: Bad Request'')"
    by code_simp
  have msg: "simplify_error_message (Some ''No video formats found'') =
               ''No downloadable video found (might be an image, carousel, or removed).''"
    by code_simp
  have st: "spec_resolve ?F ?pool 0 ?url =
              \<lparr>last_error_raw = Some ''No video formats found'', success = False, meta = None,
               world = 2, calls = [''main'', ''alt'']\<rparr>"
    by (simp add: spec_resolve_def retry)
  note t = cookie_loop_two_attempts [OF ne, of ?F 0 ?url]
  have run: "run_loop ?F ?pool 0 ?url = spec_resolve ?F ?pool 0 ?url"
    using t by (rule conjunct1)
  have a: "calls (run_loop ?F ?pool 0 ?url) = [''main'', ''alt'']"
    by (simp only: run st loop_state.simps)
  have "\<not> success (run_loop ?F ?pool 0 ?url)"
    by (simp only: run st loop_state.simps simp_thms)
  with t have "\<exists>raw. last_error_raw (run_loop ?F ?pool 0 ?url) = Some raw \<and>
                 respond (run_loop ?F ?pool 0 ?url) =
                   Inr (error_response (simplify_error_message (Some raw)) 200)"
    by blast
  then have b: "respond (run_loop ?F ?pool 0 ?url) =
     Inr (error_response
            ''No downloadable video found (might be an image, carousel, or removed).'' 200)"
    by (auto simp only: run st loop_state.simps option.inject msg)
  have "?G 0 ?url ([''main'', ''alt''] ! 0) = (Inr ?m, Suc 0)"
    by simp
  with cookie_loop_two_attempts [OF ne2, of ?G 0 ?url]
  have "run_loop ?G [''main'', ''alt''] 0 ?url =
          \<lparr>last_error_raw = None, success = True, meta = Some ?m, world = Suc 0,
           calls = [[''main'', ''alt''] ! 0]\<rparr>"
    by blast
  then have c: "calls (run_loop ?G [''main'', ''alt''] 0 ?url) = [''main'']"
    by simp
  from a b c show ?thesis
    by (intro conjI)
qed

section \<open>The answers of the endpoint\<close>

lemma drop_leading_Nil: "drop_leading ws [] = []"
proof -
  have "find (\<lambda>w. w \<noteq> [] \<and> prefix w []) ws = None"
    by (simp add: find_None_iff)
  then show ?thesis
    by (subst drop_leading.simps) simp
qed

lemma strip_Nil: "strip [] = []"
  by (simp add: strip_def lstrip_def rstrip_def drop_leading_Nil)

lemma instagram_metadata_link:
  assumes "map_of kvs ''link'' = Some (JStr s)" and "strip s \<noteq> []" and "cookie_pool \<noteq> []"
  shows "instagram_metadata fetch cookie_pool w (Inr (JObj kvs)) =
           (respond (run_loop fetch cookie_pool w (strip s)),
            world (run_loop fetch cookie_pool w (strip s)))"
  using assms
  by (cases "s = []")
     (simp_all add: instagram_metadata_def json_get_def json_strip_def bind_def Let_def)

lemma all_fail_no_success:
  assumes "\<forall>w' c. \<exists>e w''. fetch w' link c = (Inl e, w'')"
  shows "\<not> success (spec_resolve fetch cookie_pool w link)"
proof -
  obtain e w1 where f0: "fetch w link (cookie_pool ! 0) = (Inl e, w1)"
    using assms by blast
  obtain e' w2 where f1: "fetch w1 link (cookie_pool ! 1) = (Inl e', w2)"
    using assms by blast
  from f0 f1 show ?thesis
    by (simp add: spec_resolve_def)
qed


lemma instagram_metadata_no_link:
  assumes "map_of kvs ''link'' = None \<or>
           (\<exists>v. map_of kvs ''link'' = Some v \<and>
                (\<not> truthy v \<or> (\<exists>s. v = JStr s \<and> strip s = [])))"
  shows "instagram_metadata fetch cookie_pool w (Inr (JObj kvs)) =
           (Inr (error_response ''No link provided.'' 400), w)"
  using assms
  by (auto simp: instagram_metadata_def json_get_def json_strip_def bind_def strip_Nil)

lemma instagram_metadata_empty_pool:
  assumes "map_of kvs ''link'' = Some (JStr s)" and "strip s \<noteq> []"
  shows "instagram_metadata fetch [] w (Inr (JObj kvs)) =
           (Inr (error_response ''No valid Instagram cookie files found on server.'' 500), w)"
  using assms
  by (cases "s = []")
     (simp_all add: instagram_metadata_def json_get_def json_strip_def bind_def)

lemma instagram_metadata_not_object:
  assumes "\<And>kvs. body \<noteq> JObj kvs"
  shows "instagram_metadata fetch cookie_pool w (Inr body) =
           (Inl (no_attribute (type_name body) ''get''), w)"
  using assms
  by (cases body) (auto simp: instagram_metadata_def json_get_def bind_def)


lemma spec_resolve_raw_error:
  assumes "\<not> success (spec_resolve fetch cookie_pool w link)"
  shows "\<exists>e c w' w''. fetch w' link c = (Inl e, w'') \<and>
           last_error_raw (spec_resolve fetch cookie_pool w link) = Some (str_exn e)"
proof (cases "fetch w link (cookie_pool ! 0)")
  case (Pair r0 w1)
  show ?thesis
  proof (cases r0)
    case (Inr m)
    with Pair assms show ?thesis
      by (simp add: spec_resolve_def)
  next
    case (Inl e)
    show ?thesis
    proof (cases "1 < length cookie_pool \<and> should_retry_with_alt_cookie (Some (str_exn e))")
      case False
      with Pair Inl have "last_error_raw (spec_resolve fetch cookie_pool w link) = Some (str_exn e)"
        by (auto simp: spec_resolve_def)
      with Pair Inl show ?thesis
        by blast
    next
      case True
      obtain r1 w2 where f1: "fetch w1 link (cookie_pool ! 1) = (r1, w2)"
        by (cases "fetch w1 link (cookie_pool ! 1)")
      from assms Pair Inl True f1 obtain e' where r1: "r1 = Inl e'"
        by (cases r1) (auto simp: spec_resolve_def)
      with Pair Inl True f1
      have "last_error_raw (spec_resolve fetch cookie_pool w link) = Some (str_exn e')"
        by (auto simp: spec_resolve_def)
      with f1 r1 show ?thesis
        by blast
    qed
  qed
qed

lemma spec_resolve_success_meta:
  "success (spec_resolve fetch cookie_pool w link) \<Longrightarrow>
     \<exists>m. meta (spec_resolve fetch cookie_pool w link) = Some m"
  by (auto simp: spec_resolve_def split: prod.splits sum.splits if_splits)

text \<open>
  C5. A request whose \<^verbatim>\<open>link\<close> is a text that is not blank, with a pool that is not empty
  and an extraction that fails at every attempt, is answered with status 200, the empty
  string in every metadata field, and in \<^verbatim>\<open>error\<close> the translation of the text of an
  exception that an attempt raised (the one recorded last): one of the five fixed messages,
  not the text itself.
\<close>

theorem instagram_metadata_all_fail:
  assumes "map_of kvs ''link'' = Some (JStr s)"
    and "strip s \<noteq> []"
    and "cookie_pool \<noteq> []"
    and "\<forall>w' c. \<exists>e w''. fetch w' (strip s) c = (Inl e, w'')"
  shows "\<exists>e c w' w''.
           fetch w' (strip s) c = (Inl e, w'') \<and>
           last_error_raw (run_loop fetch cookie_pool w (strip s)) = Some (str_exn e) \<and>
           fst (instagram_metadata fetch cookie_pool w (Inr (JObj kvs))) =
             Inr \<lparr>content =
                    \<lparr>resp_plays = JStr [], resp_comments = JStr [], resp_likes = JStr [],
                     resp_pub_date = [], resp_pub_time = [], resp_insta_id = [],
                     resp_error = simplify_error_message (Some (str_exn e))\<rparr>,
                  status_code = 200\<rparr> \<and>
           simplify_error_message (Some (str_exn e)) \<in>
             {''No downloadable video found (might be an image, carousel, or removed).'',
              ''Post is private/restricted or the login session is not accepted.'',
              ''Unable to extract data for this URL.'',
              ''yt-dlp Instagram extractor is currently broken for this URL.'',
              ''Unknown error '' @ [CHR 0xE2, CHR 0x80, CHR 0x93] @ '' see server logs.''}"
proof -
  let ?st = "spec_resolve fetch cookie_pool w (strip s)"
  have run: "run_loop fetch cookie_pool w (strip s) = ?st"
    using assms(3) by (rule run_loop_spec)
  have fail: "\<not> success ?st"
    using assms(4) by (rule all_fail_no_success)
  from spec_resolve_raw_error [OF fail]
  obtain e c w' w'' where e: "fetch w' (strip s) c = (Inl e, w'')"
    and raw: "last_error_raw ?st = Some (str_exn e)"
    by blast
  have "fst (instagram_metadata fetch cookie_pool w (Inr (JObj kvs))) = respond ?st"
    using assms(1-3) by (simp add: instagram_metadata_link run)
  also have "\<dots> = Inr (error_response (simplify_error_message (Some (str_exn e))) 200)"
    using fail raw by (simp add: respond_def)
  finally have resp: "fst (instagram_metadata fetch cookie_pool w (Inr (JObj kvs))) =
             Inr \<lparr>content =
                    \<lparr>resp_plays = JStr [], resp_comments = JStr [], resp_likes = JStr [],
                     resp_pub_date = [], resp_pub_time = [], resp_insta_id = [],
                     resp_error = simplify_error_message (Some (str_exn e))\<rparr>,
                  status_code = 200\<rparr>"
    by (simp add: error_response_def)
  have "simplify_error_message (Some (str_exn e)) \<in>
          {msg_no_video, msg_private, msg_unable, msg_broken, msg_unknown}"
    by (rule simplify_error_message_range)
  then have fixed: "simplify_error_message (Some (str_exn e)) \<in>
             {''No downloadable video found (might be an image, carousel, or removed).'',
              ''Post is private/restricted or the login session is not accepted.'',
              ''Unable to extract data for this URL.'',
              ''yt-dlp Instagram extractor is currently broken for this URL.'',
              ''Unknown error '' @ [CHR 0xE2, CHR 0x80, CHR 0x93] @ '' see server logs.''}"
    by (simp only: msg_no_video_def msg_private_def msg_unable_def msg_broken_def
        msg_unknown_def)
  from e raw resp fixed show ?thesis
    unfolding run by blast
qed


theorem instagram_metadata_all_fail_witness:
  "fst (instagram_metadata
          (\<lambda>w url cookie_file. (Inl (DownloadError ''ERROR: Unable to extract data''), w))
          [''main'', ''alt''] ()
          (Inr (JObj [(''link'', JStr '' https://www.instagram.com/reel/abc/ '')]))) =
     Inr \<lparr>content =
            \<lparr>resp_plays = JStr [], resp_comments = JStr [], resp_likes = JStr [],
             resp_pub_date = [], resp_pub_time = [], resp_insta_id = [],
             resp_error = ''Unable to extract data for this URL.''\<rparr>,
          status_code = 200\<rparr>"
proof -
  let ?F = "\<lambda>(w::unit) (url::string) (cookie_file::string).
              (Inl (DownloadError ''ERROR: Unable to extract data'') :: exn + meta, w)"
  let ?kvs = "[(''link'', JStr '' https://www.instagram.com/reel/abc/ '')]"
  have link: "map_of ?kvs ''link'' = Some (JStr '' https://www.instagram.com/reel/abc/ '')"
    by simp
  have strip: "strip '' https://www.instagram.com/reel/abc/ '' =
                 ''https://www.instagram.com/reel/abc/''"
    by code_simp
  then have nonblank: "strip '' https://www.instagram.com/reel/abc/ '' \<noteq> []"
    by simp
  have pool: "[''main'', ''alt''] \<noteq> []"
    by simp
  have fail: "\<forall>w' c. \<exists>e w''.
                ?F w' (strip '' https://www.instagram.com/reel/abc/ '') c = (Inl e, w'')"
    by simp
  have msg: "simplify_error_message (Some ''ERROR: Unable to extract data'') =
               ''Unable to extract data for this URL.''"
    by code_simp
  from instagram_metadata_all_fail [OF link nonblank pool fail, of "()"]
  obtain e where "e = DownloadError ''ERROR: Unable to extract data''"
    and "fst (instagram_metadata ?F [''main'', ''alt''] () (Inr (JObj ?kvs))) =
             Inr \<lparr>content =
                    \<lparr>resp_plays = JStr [], resp_comments = JStr [], resp_likes = JStr [],
                     resp_pub_date = [], resp_pub_time = [], resp_insta_id = [],
                     resp_error = simplify_error_message (Some (str_exn e))\<rparr>,
                  status_code = 200\<rparr>"
    by auto
  then show ?thesis
    by (simp only: str_exn.simps msg)
qed

text \<open>
  The three guards of the handler, in their order, each before any attempt to fetch (the
  state of the world is returned as it was). A body that \<^verbatim>\<open>request.json()\<close> cannot parse is
  answered with status 400 and \<^verbatim>\<open>Invalid JSON body.\<close> A JSON object whose \<^verbatim>\<open>link\<close> is
  missing, is \<^verbatim>\<open>null\<close> or another value that counts as false, or is a text that is empty or
  only whitespace, is answered with status 400 and \<^verbatim>\<open>No link provided.\<close> A request with a
  link, arriving when the pool is empty, is answered with status 500 and
  \<^verbatim>\<open>No valid Instagram cookie files found on server.\<close> In all three answers every metadata
  field is the empty string.
\<close>

theorem instagram_metadata_guards:
  "instagram_metadata fetch cookie_pool w (Inl e) =
     (Inr \<lparr>content =
             \<lparr>resp_plays = JStr [], resp_comments = JStr [], resp_likes = JStr [],
              resp_pub_date = [], resp_pub_time = [], resp_insta_id = [],
              resp_error = ''Invalid JSON body.''\<rparr>,
           status_code = 400\<rparr>, w) \<and>
   (map_of kvs ''link'' = None \<or>
    (\<exists>v. map_of kvs ''link'' = Some v \<and>
         (\<not> truthy v \<or> (\<exists>t. v = JStr t \<and> strip t = []))) \<longrightarrow>
    instagram_metadata fetch cookie_pool w (Inr (JObj kvs)) =
      (Inr \<lparr>content =
              \<lparr>resp_plays = JStr [], resp_comments = JStr [], resp_likes = JStr [],
               resp_pub_date = [], resp_pub_time = [], resp_insta_id = [],
               resp_error = ''No link provided.''\<rparr>,
            status_code = 400\<rparr>, w)) \<and>
   (map_of kvs ''link'' = Some (JStr s) \<and> strip s \<noteq> [] \<longrightarrow>
    instagram_metadata fetch [] w (Inr (JObj kvs)) =
      (Inr \<lparr>content =
              \<lparr>resp_plays = JStr [], resp_comments = JStr [], resp_likes = JStr [],
               resp_pub_date = [], resp_pub_time = [], resp_insta_id = [],
               resp_error = ''No valid Instagram cookie files found on server.''\<rparr>,
            status_code = 500\<rparr>, w))"
  (is "?invalid \<and> ?nolink \<and> ?nopool")
proof -
  have invalid: ?invalid
    by (simp add: instagram_metadata_def error_response_def)
  have nolink: ?nolink
    using instagram_metadata_no_link [of kvs fetch cookie_pool w]
    by (simp only: error_response_def) blast
  have nopool: ?nopool
    using instagram_metadata_empty_pool [of kvs s fetch w]
    by (simp only: error_response_def) blast
  from invalid nolink nopool show ?thesis
    by (intro conjI)
qed


theorem instagram_metadata_guards_witness:
  "instagram_metadata (\<lambda>w url cookie_file. (Inl (DownloadError []), w)) [''main''] ()
     (Inl (ValueError ''Expecting value: line 1 column 1 (char 0)'')) =
     (Inr \<lparr>content =
             \<lparr>resp_plays = JStr [], resp_comments = JStr [], resp_likes = JStr [],
              resp_pub_date = [], resp_pub_time = [], resp_insta_id = [],
              resp_error = ''Invalid JSON body.''\<rparr>,
           status_code = 400\<rparr>, ()) \<and>
   instagram_metadata (\<lambda>w url cookie_file. (Inl (DownloadError []), w)) [''main''] ()
     (Inr (JObj [(''link'', JStr ''  '')])) =
     (Inr \<lparr>content =
             \<lparr>resp_plays = JStr [], resp_comments = JStr [], resp_likes = JStr [],
              resp_pub_date = [], resp_pub_time = [], resp_insta_id = [],
              resp_error = ''No link provided.''\<rparr>,
           status_code = 400\<rparr>, ()) \<and>
   instagram_metadata (\<lambda>w url cookie_file. (Inl (DownloadError []), w)) [] ()
     (Inr (JObj [(''link'', JStr ''https://www.instagram.com/reel/abc/'')])) =
     (Inr \<lparr>content =
             \<lparr>resp_plays = JStr [], resp_comments = JStr [], resp_likes = JStr [],
              resp_pub_date = [], resp_pub_time = [], resp_insta_id = [],
              resp_error = ''No valid Instagram cookie files found on server.''\<rparr>,
           status_code = 500\<rparr>, ())"
proof (intro conjI)
  let ?F = "\<lambda>(w::unit) (url::string) (cookie_file::string).
              (Inl (DownloadError []) :: exn + meta, w)"
  show "instagram_metadata ?F [''main''] ()
     (Inl (ValueError ''Expecting value: line 1 column 1 (char 0)'')) =
     (Inr \<lparr>content =
             \<lparr>resp_plays = JStr [], resp_comments = JStr [], resp_likes = JStr [],
              resp_pub_date = [], resp_pub_time = [], resp_insta_id = [],
              resp_error = ''Invalid JSON body.''\<rparr>,
           status_code = 400\<rparr>, ())"
    by (rule instagram_metadata_guards [THEN conjunct1])
  have blank: "strip ''  '' = []"
    by code_simp
  show "instagram_metadata ?F [''main''] () (Inr (JObj [(''link'', JStr ''  '')])) =
     (Inr \<lparr>content =
             \<lparr>resp_plays = JStr [], resp_comments = JStr [], resp_likes = JStr [],
              resp_pub_date = [], resp_pub_time = [], resp_insta_id = [],
              resp_error = ''No link provided.''\<rparr>,
           status_code = 400\<rparr>, ())"
    by (rule instagram_metadata_guards [THEN conjunct2, THEN conjunct1, THEN mp])
       (simp add: blank)
  have link: "strip ''https://www.instagram.com/reel/abc/'' =
                ''https://www.instagram.com/reel/abc/''"
    by code_simp
  show "instagram_metadata ?F [] ()
     (Inr (JObj [(''link'', JStr ''https://www.instagram.com/reel/abc/'')])) =
     (Inr \<lparr>content =
             \<lparr>resp_plays = JStr [], resp_comments = JStr [], resp_likes = JStr [],
              resp_pub_date = [], resp_pub_time = [], resp_insta_id = [],
              resp_error = ''No valid Instagram cookie files found on server.''\<rparr>,
           status_code = 500\<rparr>, ())"
    by (rule instagram_metadata_guards
              [where s = "''https://www.instagram.com/reel/abc/''",
               THEN conjunct2, THEN conjunct2, THEN mp])
       (simp add: link)
qed

text \<open>
  C6 says that every request whose \<^verbatim>\<open>link\<close> field is missing is answered with status 400
  and \<^verbatim>\<open>No link provided.\<close> A body that is JSON but not an object (the empty list, \<^verbatim>\<open>null\<close>,
  a number, a text) has no \<^verbatim>\<open>link\<close> field and passes the first guard: the handler calls
  \<^verbatim>\<open>body.get("link")\<close> outside the \<^verbatim>\<open>try\<close>, and the call raises \<^verbatim>\<open>AttributeError\<close>
  (for the empty list, \<^verbatim>\<open>'list' object has no attribute 'get'\<close>). The handler returns no
  answer of its own.
\<close>

theorem instagram_metadata_not_object_body:
  "instagram_metadata fetch cookie_pool w (Inr (JArr [])) =
     (Inl (AttributeError ([CHR 0x27] @ ''list'' @ [CHR 0x27] @ '' object has no attribute '' @
                           [CHR 0x27] @ ''get'' @ [CHR 0x27])), w) \<and>
   instagram_metadata fetch cookie_pool w (Inr JNull) =
     (Inl (no_attribute ''NoneType'' ''get''), w) \<and>
   instagram_metadata fetch cookie_pool w (Inr (JNum 5)) =
     (Inl (no_attribute ''int'' ''get''), w) \<and>
   instagram_metadata fetch cookie_pool w (Inr (JStr ''x'')) =
     (Inl (no_attribute ''str'' ''get''), w)"
  by (simp add: instagram_metadata_def json_get_def bind_def no_attribute_def)

lemma get_instagram_metadata_fields:
  assumes "get_instagram_metadata extract_info tz w url cookie_file = (Inr m, w')"
  shows "\<exists>info. extract_info w url cookie_file = (Inr info, w') \<and>
           plays m = view_count info \<and> comments m = comment_count info \<and>
           likes m = like_count info \<and>
           insta_id m = (case uploader info of
                           None \<Rightarrow> uploader_id info
                         | Some u \<Rightarrow> if u \<noteq> [] then Some u else uploader_id info)"
  using assms
  by (auto simp: get_instagram_metadata_def bind_def Let_def
      split: prod.splits sum.splits)

text \<open>
  C9. When an attempt succeeded, the answer has status 200 and an empty \<^verbatim>\<open>error\<close>; each of
  \<^verbatim>\<open>plays\<close>, \<^verbatim>\<open>comments\<close> and \<^verbatim>\<open>likes\<close> is the integer of the fetched record when the record
  has one (the integer 0 too, which is not the empty string) and the empty string when it
  has none; \<^verbatim>\<open>pub_date\<close>, \<^verbatim>\<open>pub_time\<close> and \<^verbatim>\<open>insta_id\<close> are the texts of the record, the
  empty string when it has none. The counts of the fetched record are those of the record
  of the extraction library.
\<close>

theorem instagram_metadata_success_fields:
  assumes "map_of kvs ''link'' = Some (JStr s)"
    and "strip s \<noteq> []"
    and "cookie_pool \<noteq> []"
    and "success (run_loop fetch cookie_pool w (strip s))"
  shows "(\<exists>m. meta (run_loop fetch cookie_pool w (strip s)) = Some m \<and>
            fst (instagram_metadata fetch cookie_pool w (Inr (JObj kvs))) =
              Inr \<lparr>content =
                     \<lparr>resp_plays = (case plays m of None \<Rightarrow> JStr [] | Some n \<Rightarrow> JNum n),
                      resp_comments = (case comments m of None \<Rightarrow> JStr [] | Some n \<Rightarrow> JNum n),
                      resp_likes = (case likes m of None \<Rightarrow> JStr [] | Some n \<Rightarrow> JNum n),
                      resp_pub_date = (case pub_date m of None \<Rightarrow> [] | Some d \<Rightarrow> d),
                      resp_pub_time = (case pub_time m of None \<Rightarrow> [] | Some t \<Rightarrow> t),
                      resp_insta_id = (case insta_id m of None \<Rightarrow> [] | Some i \<Rightarrow> i),
                      resp_error = []\<rparr>,
                   status_code = 200\<rparr>) \<and>
         JNum 0 \<noteq> JStr [] \<and>
         (\<forall>extract_info tz w0 url cookie_file m' w1.
            get_instagram_metadata extract_info tz w0 url cookie_file = (Inr m', w1) \<longrightarrow>
            (\<exists>info. extract_info w0 url cookie_file = (Inr info, w1) \<and>
                    plays m' = view_count info \<and> comments m' = comment_count info \<and>
                    likes m' = like_count info))"
proof -
  let ?st = "spec_resolve fetch cookie_pool w (strip s)"
  have run: "run_loop fetch cookie_pool w (strip s) = ?st"
    using assms(3) by (rule run_loop_spec)
  with assms(4) have ok: "success ?st"
    by simp
  from spec_resolve_success_meta [OF ok] obtain m where m: "meta ?st = Some m"
    by blast
  have "fst (instagram_metadata fetch cookie_pool w (Inr (JObj kvs))) = respond ?st"
    using assms(1-3) by (simp add: instagram_metadata_link run)
  with ok m have first: "\<exists>m. meta (run_loop fetch cookie_pool w (strip s)) = Some m \<and>
            fst (instagram_metadata fetch cookie_pool w (Inr (JObj kvs))) =
              Inr \<lparr>content =
                     \<lparr>resp_plays = (case plays m of None \<Rightarrow> JStr [] | Some n \<Rightarrow> JNum n),
                      resp_comments = (case comments m of None \<Rightarrow> JStr [] | Some n \<Rightarrow> JNum n),
                      resp_likes = (case likes m of None \<Rightarrow> JStr [] | Some n \<Rightarrow> JNum n),
                      resp_pub_date = (case pub_date m of None \<Rightarrow> [] | Some d \<Rightarrow> d),
                      resp_pub_time = (case pub_time m of None \<Rightarrow> [] | Some t \<Rightarrow> t),
                      resp_insta_id = (case insta_id m of None \<Rightarrow> [] | Some i \<Rightarrow> i),
                      resp_error = []\<rparr>,
                   status_code = 200\<rparr>"
    by (simp add: run respond_def count_field_def or_empty_def)
  have upstream: "\<forall>extract_info tz w0 url cookie_file m' w1.
            get_instagram_metadata extract_info tz w0 url cookie_file = (Inr m', w1) \<longrightarrow>
            (\<exists>info. extract_info w0 url cookie_file = (Inr info, w1) \<and>
                    plays m' = view_count info \<and> comments m' = comment_count info \<and>
                    likes m' = like_count info)"
  proof (intro allI impI)
    fix extract_info tz w0 url cookie_file m' w1
    assume "get_instagram_metadata extract_info tz w0 url cookie_file = (Inr m', w1)"
    from get_instagram_metadata_fields [OF this]
    show "\<exists>info. extract_info w0 url cookie_file = (Inr info, w1) \<and>
                 plays m' = view_count info \<and> comments m' = comment_count info \<and>
                 likes m' = like_count info"
      by blast
  qed
  from first upstream show ?thesis
    by simp
qed


theorem instagram_metadata_success_fields_witness:
  "fst (instagram_metadata
          (get_instagram_metadata
             (\<lambda>w url cookie_file.
                (Inr \<lparr>timestamp = Some 1700000000, view_count = Some 0,
                      comment_count = Some 2, like_count = None, uploader = None,
                      uploader_id = Some ''12345''\<rparr>, w))
             \<lparr>gmtoff = \<lambda>u. 0,
              range_error = \<lambda>t. ValueError ''year 10000 is out of range''\<rparr>)
          [''main''] (0::nat)
          (Inr (JObj [(''link'', JStr ''https://www.instagram.com/reel/abc/'')]))) =
     Inr \<lparr>content =
            \<lparr>resp_plays = JNum 0, resp_comments = JNum 2, resp_likes = JStr [],
             resp_pub_date = ''2023-11-14'', resp_pub_time = ''22:13:20'',
             resp_insta_id = ''12345'', resp_error = []\<rparr>,
          status_code = 200\<rparr>"
proof -
  let ?E = "\<lambda>(w::nat) (url::string) (cookie_file::string).
              (Inr \<lparr>timestamp = Some 1700000000, view_count = Some 0,
                    comment_count = Some 2, like_count = None, uploader = None,
                    uploader_id = Some ''12345''\<rparr> :: exn + info, w)"
  let ?F = "get_instagram_metadata ?E
              \<lparr>gmtoff = \<lambda>u. 0,
               range_error = \<lambda>t. ValueError ''year 10000 is out of range''\<rparr>"
  let ?url = "''https://www.instagram.com/reel/abc/''"
  let ?kvs = "[(''link'', JStr ?url)]"
  let ?m = "\<lparr>plays = Some 0, comments = Some 2, likes = None,
             pub_date = Some ''2023-11-14'', pub_time = Some ''22:13:20'',
             insta_id = Some ''12345''\<rparr>"
  have link: "map_of ?kvs ''link'' = Some (JStr ?url)"
    by simp
  have strip: "strip ?url = ?url"
    by code_simp
  then have nonblank: "strip ?url \<noteq> []"
    by simp
  have pool: "[''main''] \<noteq> []"
    by simp
  have fetch: "?F w url cookie_file = (Inr ?m, w)" for w url cookie_file
    by code_simp
  have st: "run_loop ?F [''main''] 0 (strip ?url) =
              \<lparr>last_error_raw = None, success = True, meta = Some ?m, world = 0,
               calls = [''main'']\<rparr>"
    by (simp only: run_loop_spec [OF pool]) (simp add: spec_resolve_def fetch)
  then have ok: "success (run_loop ?F [''main''] 0 (strip ?url))"
    by simp
  from instagram_metadata_success_fields [OF link nonblank pool ok, THEN conjunct1]
  obtain m where m: "meta (run_loop ?F [''main''] 0 (strip ?url)) = Some m"
    and r: "fst (instagram_metadata ?F [''main''] 0 (Inr (JObj ?kvs))) =
              Inr \<lparr>content =
                     \<lparr>resp_plays = (case plays m of None \<Rightarrow> JStr [] | Some n \<Rightarrow> JNum n),
                      resp_comments = (case comments m of None \<Rightarrow> JStr [] | Some n \<Rightarrow> JNum n),
                      resp_likes = (case likes m of None \<Rightarrow> JStr [] | Some n \<Rightarrow> JNum n),
                      resp_pub_date = (case pub_date m of None \<Rightarrow> [] | Some d \<Rightarrow> d),
                      resp_pub_time = (case pub_time m of None \<Rightarrow> [] | Some t \<Rightarrow> t),
                      resp_insta_id = (case insta_id m of None \<Rightarrow> [] | Some i \<Rightarrow> i),
                      resp_error = []\<rparr>,
                   status_code = 200\<rparr>"
    by blast
  from m have "m = ?m"
    by (simp add: st)
  with r show ?thesis
    by simp
qed

section \<open>The cookie files at the start\<close>

lemma write_cookie_from_secret_blank:
  assumes "secrets secret_key = None \<or> (\<exists>v. secrets secret_key = Some v \<and> strip v = [])"
  shows "write_cookie_from_secret secrets fs secret_key path = (Inr False, fs(path := None))"
proof -
  have "(if fs path \<noteq> None then fs(path := None) else fs) = fs(path := None)"
    by auto
  with assms show ?thesis
    by (auto simp: write_cookie_from_secret_def Let_def strip_Nil)
qed

lemma write_cookie_from_secret_present:
  assumes "secrets secret_key = Some v" and "strip v \<noteq> []"
  shows "write_cookie_from_secret secrets fs secret_key path =
           (Inl (NameError (''name '' @ [CHR 0x27] @ ''Path'' @ [CHR 0x27] @
                            '' is not defined'')), fs)"
proof -
  from assms(2) have "v \<noteq> []"
    by (auto simp: strip_Nil)
  moreover have "''Path'' \<notin> set module_names"
    by (simp add: module_names_def)
  ultimately show ?thesis
    using assms by (simp add: write_cookie_from_secret_def Let_def)
qed

lemma startup_main_and_alt_missing:
  assumes "secrets ''INSTAGRAM_COOKIE_MAIN'' = None \<or>
           (\<exists>v. secrets ''INSTAGRAM_COOKIE_MAIN'' = Some v \<and> strip v = [])"
    and "secrets ''INSTAGRAM_COOKIE_ALT'' = None \<or>
           (\<exists>v. secrets ''INSTAGRAM_COOKIE_ALT'' = Some v \<and> strip v = [])"
  shows "startup secrets fs =
           (Inl (RuntimeError
                   (''INSTAGRAM_COOKIE_MAIN is not set or empty in Streamlit secrets. '' @
                    ''Set it in the app'' @ [CHR 0x27] @ ''s Secrets section.'')),
            fs(COOKIE_FILE_MAIN := None, COOKIE_FILE_ALT := None))"
  by (simp add: startup_def
      write_cookie_from_secret_blank [of secrets "''INSTAGRAM_COOKIE_MAIN''", OF assms(1)]
      write_cookie_from_secret_blank [of secrets "''INSTAGRAM_COOKIE_ALT''", OF assms(2)])

lemma startup_never_serves: "\<exists>e fs'. startup secrets fs = (Inl e, fs')"
proof (cases "secrets ''INSTAGRAM_COOKIE_MAIN'' = None \<or>
           (\<exists>v. secrets ''INSTAGRAM_COOKIE_MAIN'' = Some v \<and> strip v = [])")
  case main: True
  show ?thesis
  proof (cases "secrets ''INSTAGRAM_COOKIE_ALT'' = None \<or>
           (\<exists>v. secrets ''INSTAGRAM_COOKIE_ALT'' = Some v \<and> strip v = [])")
    case True
    from startup_main_and_alt_missing [OF main True] show ?thesis
      by blast
  next
    case False
    then obtain v where "secrets ''INSTAGRAM_COOKIE_ALT'' = Some v" and "strip v \<noteq> []"
      by auto
    then show ?thesis
      by (simp add: startup_def
          write_cookie_from_secret_blank [of secrets "''INSTAGRAM_COOKIE_MAIN''", OF main]
          write_cookie_from_secret_present)
  qed
next
  case False
  then obtain v where "secrets ''INSTAGRAM_COOKIE_MAIN'' = Some v" and "strip v \<noteq> []"
    by auto
  then show ?thesis
    by (simp add: startup_def write_cookie_from_secret_present)
qed

text \<open>
  C7 says that a secret that is present and not blank is written to the file of its slot and
  that \<open>write_cookie_from_secret\<close> then returns \<^verbatim>\<open>True\<close>. The module never imports
  \<^verbatim>\<open>Path\<close>, so with the main secret set to \<^verbatim>\<open>sessionid=abc\<close> the call raises
  \<^verbatim>\<open>NameError\<close>, no file is written, and the start of the process ends with that
  exception.
\<close>

theorem write_cookie_from_secret_name_error:
  "fst (write_cookie_from_secret [''INSTAGRAM_COOKIE_MAIN'' \<mapsto> ''sessionid=abc''] Map.empty
          ''INSTAGRAM_COOKIE_MAIN'' COOKIE_FILE_MAIN) =
     Inl (NameError ''name 'Path' is not defined'') \<and>
   snd (write_cookie_from_secret [''INSTAGRAM_COOKIE_MAIN'' \<mapsto> ''sessionid=abc''] Map.empty
          ''INSTAGRAM_COOKIE_MAIN'' COOKIE_FILE_MAIN) COOKIE_FILE_MAIN = None \<and>
   fst (startup [''INSTAGRAM_COOKIE_MAIN'' \<mapsto> ''sessionid=abc''] Map.empty) =
     Inl (NameError ''name 'Path' is not defined'')"
proof -
  have "strip ''sessionid=abc'' = ''sessionid=abc''"
    by code_simp
  then have "strip ''sessionid=abc'' \<noteq> []"
    by simp
  then have "write_cookie_from_secret [''INSTAGRAM_COOKIE_MAIN'' \<mapsto> ''sessionid=abc'']
               Map.empty ''INSTAGRAM_COOKIE_MAIN'' COOKIE_FILE_MAIN =
             (Inl (NameError ''name 'Path' is not defined''), Map.empty)"
    by (simp add: write_cookie_from_secret_present)
  then show ?thesis
    by (simp add: startup_def)
qed

section \<open>Calendar dates and their printed form\<close>

lemma month_day_bounds:
  fixes r :: int
  assumes "0 \<le> r" and "r < 365"
    and mo_def: "mo = (r + 50) div 32"
    and pre_def: "pre = DAYS_BEFORE_MONTH ! nat mo + (if mo > 2 \<and> leap then 1 else 0)"
    and pre'_def: "pre' = pre - (DAYS_IN_MONTH ! nat (mo - 1) +
                                 (if mo - 1 = 2 \<and> leap then 1 else 0))"
  shows "1 \<le> mo \<and> mo \<le> 12"
    and "pre > r \<Longrightarrow> 1 \<le> mo - 1 \<and> 1 \<le> r - pre' + 1 \<and> r - pre' + 1 \<le> 31"
    and "\<not> pre > r \<Longrightarrow> 1 \<le> r - pre + 1 \<and> r - pre + 1 \<le> 31"
proof -
  have r: "32 * mo \<le> r + 50" "r + 50 < 32 * mo + 32"
    unfolding mo_def by arith+
  with assms(1,2) have mo: "1 \<le> mo" "mo \<le> 12"
    by arith+
  then have cases: "mo = 1 \<or> mo = 2 \<or> mo = 3 \<or> mo = 4 \<or> mo = 5 \<or> mo = 6 \<or>
      mo = 7 \<or> mo = 8 \<or> mo = 9 \<or> mo = 10 \<or> mo = 11 \<or> mo = 12"
    by arith
  from mo show "1 \<le> mo \<and> mo \<le> 12"
    by simp
  show "1 \<le> mo - 1 \<and> 1 \<le> r - pre' + 1 \<and> r - pre' + 1 \<le> 31" if "pre > r"
    using cases that r assms(1,2) unfolding pre'_def pre_def
    by (elim disjE) (simp_all add: DAYS_BEFORE_MONTH_def DAYS_IN_MONTH_def split: if_splits)
  show "1 \<le> r - pre + 1 \<and> r - pre + 1 \<le> 31" if "\<not> pre > r"
    using cases that r assms(1,2) unfolding pre_def
    by (elim disjE) (simp_all add: DAYS_BEFORE_MONTH_def DAYS_IN_MONTH_def split: if_splits)
qed


lemma ord2ymd_bounds:
  assumes "ord2ymd n = (y, m, d)"
  shows "1 \<le> m \<and> m \<le> 12 \<and> 1 \<le> d \<and> d \<le> 31"
proof -
  define r where "r = (n - 1) mod 146097 mod 36524 mod 1461 mod 365"
  define n1 where "n1 = (n - 1) mod 146097 mod 36524 mod 1461 div 365"
  define n4 where "n4 = (n - 1) mod 146097 mod 36524 div 1461"
  define n100 where "n100 = (n - 1) mod 146097 div 36524"
  define Y where "Y = (n - 1) div 146097 * 400 + 1 + n100 * 100 + n4 * 4 + n1"
  define leap where "leap \<longleftrightarrow> n1 = 3 \<and> (n4 \<noteq> 24 \<or> n100 = 3)"
  define mo where "mo = (r + 50) div 32"
  define pre where "pre = DAYS_BEFORE_MONTH ! nat mo + (if mo > 2 \<and> leap then 1 else 0)"
  define pre' where "pre' = pre - (DAYS_IN_MONTH ! nat (mo - 1) +
                                 (if mo - 1 = 2 \<and> leap then 1 else 0))"
  have unfold: "ord2ymd n =
      (if n1 = 4 \<or> n100 = 4 then (Y - 1, 12, 31)
       else if pre > r then (Y, mo - 1, r - pre' + 1)
       else (Y, mo, r - pre + 1))"
    unfolding ord2ymd_def Let_def r_def n1_def n4_def n100_def Y_def leap_def mo_def pre_def
      pre'_def
    by (rule refl)
  have r: "0 \<le> r" "r < 365"
    by (simp_all add: r_def)
  note b = month_day_bounds [OF r mo_def pre_def pre'_def]
  consider "n1 = 4 \<or> n100 = 4" | "\<not> (n1 = 4 \<or> n100 = 4)" "pre > r"
    | "\<not> (n1 = 4 \<or> n100 = 4)" "\<not> pre > r"
    by blast
  then show ?thesis
  proof cases
    case 1
    with assms unfold have "m = 12" "d = 31"
      by simp_all
    then show ?thesis
      by simp
  next
    case 2
    with assms unfold have "m = mo - 1" "d = r - pre' + 1"
      by simp_all
    with b(1) b(2) [OF 2(2)] show ?thesis
      by simp
  next
    case 3
    with assms unfold have "m = mo" "d = r - pre + 1"
      by simp_all
    with b(1) b(3) [OF 3(2)] show ?thesis
      by simp
  qed
qed


lemma is_digit_digit_char: "d < 10 \<Longrightarrow> is_digit (digit_char d)"
proof -
  assume "d < 10"
  then have "d \<in> {0, 1, 2, 3, 4, 5, 6, 7, 8, 9}"
    by auto
  then show ?thesis
    by (auto simp: is_digit_def digit_char_def)
qed

lemma decimal_digits: "list_all is_digit (decimal n)"
proof (induction n rule: decimal.induct)
  case (1 n)
  have last: "is_digit (digit_char (nat (n mod 10)))"
    by (rule is_digit_digit_char) simp
  show ?case
  proof (cases "10 \<le> n")
    case True
    with "1.IH" last show ?thesis
      by (subst decimal.simps) simp
  next
    case False
    with last show ?thesis
      by (subst decimal.simps) simp
  qed
qed

lemma decimal_length: "n < 10 ^ Suc k \<Longrightarrow> length (decimal n) \<le> Suc k"
proof (induction k arbitrary: n)
  case 0
  then show ?case
    by (subst decimal.simps) simp
next
  case (Suc k)
  show ?case
  proof (cases "10 \<le> n")
    case True
    from Suc.prems have "n div 10 < 10 ^ Suc k"
      by simp
    then have "length (decimal (n div 10)) \<le> Suc k"
      by (rule Suc.IH)
    with True show ?thesis
      by (subst decimal.simps) simp
  next
    case False
    then show ?thesis
      by (subst decimal.simps) simp
  qed
qed

lemma decimal_length_ge: "10 ^ k \<le> n \<Longrightarrow> Suc k \<le> length (decimal n)"
proof (induction k arbitrary: n)
  case 0
  then show ?case
    by (subst decimal.simps) simp
next
  case (Suc k)
  have "(10::int) \<le> 10 ^ Suc k"
    by simp
  then have ten: "10 \<le> n"
    using Suc.prems by (rule order_trans)
  from Suc.prems have "10 ^ k \<le> n div 10"
    by simp
  then have "Suc k \<le> length (decimal (n div 10))"
    by (rule Suc.IH)
  with ten show ?case
    by (subst decimal.simps) simp
qed

lemma zfill_digits:
  assumes "0 \<le> n" and "n < 10 ^ Suc k"
  shows "length (zfill (Suc k) (show_int n)) = Suc k"
    and "list_all is_digit (zfill (Suc k) (show_int n))"
proof -
  from assms(1) have s: "show_int n = decimal n"
    by (simp add: show_int_def)
  from assms(2) have "length (decimal n) \<le> Suc k"
    by (rule decimal_length)
  then show "length (zfill (Suc k) (show_int n)) = Suc k"
    by (simp add: zfill_def s)
  have "is_digit (CHR ''0'')"
    by (simp add: is_digit_def)
  with decimal_digits [of n] show "list_all is_digit (zfill (Suc k) (show_int n))"
    by (auto simp: zfill_def s list_all_iff)
qed

lemma matches_digits:
  "list_all is_digit s \<Longrightarrow> length s = k \<Longrightarrow> matches (replicate k (CHR ''D'')) s"
  by (auto simp: matches_def list_all2_conv_all_nth list_all_length)

lemma matches_append:
  "matches p s \<Longrightarrow> matches q t \<Longrightarrow> matches (p @ q) (s @ t)"
  by (simp add: matches_def list_all2_appendI)

lemma matches_separator: "matches ''-'' ''-''" "matches '':'' '':''"
  by (simp_all add: matches_def)

lemma strftime_date:
  "strftime dt ''%Y-%m-%d'' =
     show_int (year dt) @ ''-'' @ zfill 2 (show_int (month dt)) @ ''-'' @
     zfill 2 (show_int (day dt))"
  by (simp add: directive_def)

lemma strftime_time:
  "strftime dt ''%H:%M:%S'' =
     zfill 2 (show_int (hour dt)) @ '':'' @ zfill 2 (show_int (minute dt)) @ '':'' @
     zfill 2 (show_int (second dt))"
  by (simp add: directive_def)

lemma matches_two_digits:
  assumes "0 \<le> n" and "n < 100"
  shows "matches ''DD'' (zfill 2 (show_int n))"
proof -
  have two: "2 = Suc (Suc 0)"
    by simp
  from assms(2) have "n < 10 ^ Suc (Suc 0)"
    by simp
  with assms(1) have l: "length (zfill (Suc (Suc 0)) (show_int n)) = Suc (Suc 0)"
    and d: "list_all is_digit (zfill (Suc (Suc 0)) (show_int n))"
    by (rule zfill_digits)+
  have "matches (replicate (Suc (Suc 0)) (CHR ''D'')) (zfill (Suc (Suc 0)) (show_int n))"
    using d l by (rule matches_digits)
  then show ?thesis
    by (simp add: two)
qed

lemma matches_four_digits:
  assumes "1000 \<le> n" and "n < 10000"
  shows "matches ''DDDD'' (show_int n)"
proof -
  have four: "4 = Suc (Suc (Suc (Suc 0)))"
    by simp
  from assms(1) have n0: "0 \<le> n"
    by simp
  from assms(2) have "n < 10 ^ Suc (Suc (Suc (Suc 0)))"
    by simp
  with n0
  have l: "length (zfill (Suc (Suc (Suc (Suc 0)))) (show_int n)) = Suc (Suc (Suc (Suc 0)))"
    and d: "list_all is_digit (zfill (Suc (Suc (Suc (Suc 0)))) (show_int n))"
    by (rule zfill_digits)+
  from assms(1) have "10 ^ Suc (Suc (Suc 0)) \<le> n"
    by simp
  then have "Suc (Suc (Suc (Suc 0))) \<le> length (decimal n)"
    by (rule decimal_length_ge)
  with n0 have unpadded: "zfill (Suc (Suc (Suc (Suc 0)))) (show_int n) = show_int n"
    by (simp add: zfill_def show_int_def)
  have "matches (replicate (Suc (Suc (Suc (Suc 0)))) (CHR ''D''))
               (zfill (Suc (Suc (Suc (Suc 0)))) (show_int n))"
    using d l by (rule matches_digits)
  then show ?thesis
    by (simp add: unpadded)
qed

lemma matches_date:
  assumes "1000 \<le> year dt" and "year dt \<le> 9999" and "1 \<le> month dt" and "month dt \<le> 12"
    and "1 \<le> day dt" and "day dt \<le> 31"
  shows "matches ''DDDD-DD-DD'' (strftime dt ''%Y-%m-%d'')"
proof -
  have y: "matches ''DDDD'' (show_int (year dt))"
    using assms(1,2) by (intro matches_four_digits) simp_all
  have m: "matches ''DD'' (zfill 2 (show_int (month dt)))"
    using assms(3,4) by (intro matches_two_digits) simp_all
  have d: "matches ''DD'' (zfill 2 (show_int (day dt)))"
    using assms(5,6) by (intro matches_two_digits) simp_all
  have pattern: "''DDDD-DD-DD'' = ''DDDD'' @ ''-'' @ ''DD'' @ ''-'' @ ''DD''"
    by simp
  show ?thesis
    unfolding strftime_date pattern
    by (intro matches_append y m d matches_separator)
qed

lemma matches_time:
  assumes "0 \<le> hour dt" and "hour dt < 24" and "0 \<le> minute dt" and "minute dt < 60"
    and "0 \<le> second dt" and "second dt < 60"
  shows "matches ''DD:DD:DD'' (strftime dt ''%H:%M:%S'')"
proof -
  have h: "matches ''DD'' (zfill 2 (show_int (hour dt)))"
    using assms(1,2) by (intro matches_two_digits) simp_all
  have m: "matches ''DD'' (zfill 2 (show_int (minute dt)))"
    using assms(3,4) by (intro matches_two_digits) simp_all
  have s: "matches ''DD'' (zfill 2 (show_int (second dt)))"
    using assms(5,6) by (intro matches_two_digits) simp_all
  have pattern: "''DD:DD:DD'' = ''DD'' @ '':'' @ ''DD'' @ '':'' @ ''DD''"
    by simp
  show ?thesis
    unfolding strftime_time pattern
    by (intro matches_append h m s matches_separator)
qed

lemma fromtimestamp_fields:
  assumes "fromtimestamp tz t = Inr dt"
  shows "(year dt, month dt, day dt) = ord2ymd ((t + gmtoff tz t) div 86400 + 719163)"
    and "1 \<le> year dt \<and> year dt \<le> 9999"
    and "hour dt = (t + gmtoff tz t) mod 86400 div 3600"
    and "minute dt = (t + gmtoff tz t) mod 86400 mod 3600 div 60"
    and "second dt = (t + gmtoff tz t) mod 86400 mod 60"
proof -
  obtain y m d where ymd: "ord2ymd ((t + gmtoff tz t) div 86400 + 719163) = (y, m, d)"
    by (cases "ord2ymd ((t + gmtoff tz t) div 86400 + 719163)")
  from assms have accepted: "representable tz t"
    by (simp add: fromtimestamp_def Let_def split: if_splits)
  with ymd have range: "1 \<le> y \<and> y \<le> 9999"
    by (simp add: representable_def local_seconds_def)
  from assms ymd have dt: "dt = \<lparr>year = y, month = m, day = d,
                   hour = (t + gmtoff tz t) mod 86400 div 3600,
                   minute = (t + gmtoff tz t) mod 86400 mod 3600 div 60,
                   second = (t + gmtoff tz t) mod 86400 mod 60\<rparr>"
    by (auto simp: fromtimestamp_def local_seconds_def Let_def split: if_splits)
  from dt ymd show "(year dt, month dt, day dt) = ord2ymd ((t + gmtoff tz t) div 86400 + 719163)"
    by simp
  from dt range show "1 \<le> year dt \<and> year dt \<le> 9999"
    by simp
  from dt show "hour dt = (t + gmtoff tz t) mod 86400 div 3600"
    and "minute dt = (t + gmtoff tz t) mod 86400 mod 3600 div 60"
    and "second dt = (t + gmtoff tz t) mod 86400 mod 60"
    by simp_all
qed

lemma fromtimestamp_shape:
  assumes "fromtimestamp tz t = Inr dt"
  shows "1000 \<le> year dt \<longrightarrow> matches ''DDDD-DD-DD'' (strftime dt ''%Y-%m-%d'')"
    and "matches ''DD:DD:DD'' (strftime dt ''%H:%M:%S'')"
proof -
  note f = fromtimestamp_fields [OF assms]
  from f(1) have "ord2ymd ((t + gmtoff tz t) div 86400 + 719163) = (year dt, month dt, day dt)"
    by simp
  then have md: "1 \<le> month dt \<and> month dt \<le> 12 \<and> 1 \<le> day dt \<and> day dt \<le> 31"
    by (rule ord2ymd_bounds)
  show "1000 \<le> year dt \<longrightarrow> matches ''DDDD-DD-DD'' (strftime dt ''%Y-%m-%d'')"
  proof
    assume "1000 \<le> year dt"
    with f(2) md show "matches ''DDDD-DD-DD'' (strftime dt ''%Y-%m-%d'')"
      by (intro matches_date) simp_all
  qed
  have "0 \<le> hour dt" "hour dt < 24" "0 \<le> minute dt" "minute dt < 60"
    "0 \<le> second dt" "second dt < 60"
    unfolding f(3-5) by arith+
  then show "matches ''DD:DD:DD'' (strftime dt ''%H:%M:%S'')"
    by (rule matches_time)
qed

lemma formatted_absent:
  "formatted tz None fmt = Inr None" "formatted tz (Some 0) fmt = Inr None"
  by (simp_all add: formatted_def)

lemma formatted_present:
  "t \<noteq> 0 \<Longrightarrow> formatted tz (Some t) fmt =
     (case fromtimestamp tz t of
        Inl e \<Rightarrow> Inl e
      | Inr dt \<Rightarrow> Inr (Some (strftime dt fmt)))"
  by (simp add: formatted_def bind_def)

lemma get_instagram_metadata_absent:
  assumes "extract_info w url cookie_file = (Inr info, w')"
    and "timestamp info = None \<or> timestamp info = Some 0"
  shows "get_instagram_metadata extract_info tz w url cookie_file =
           (Inr \<lparr>plays = view_count info, comments = comment_count info,
                 likes = like_count info, pub_date = None, pub_time = None,
                 insta_id = (case uploader info of
                               None \<Rightarrow> uploader_id info
                             | Some u \<Rightarrow> if u \<noteq> [] then Some u else uploader_id info)\<rparr>, w')"
  using assms
  by (auto simp: get_instagram_metadata_def Let_def bind_def formatted_absent)

lemma get_instagram_metadata_present:
  assumes "extract_info w url cookie_file = (Inr info, w')"
    and "timestamp info = Some t" and "t \<noteq> 0"
  shows "get_instagram_metadata extract_info tz w url cookie_file =
           (case fromtimestamp tz t of
              Inl e \<Rightarrow> (Inl e, w')
            | Inr dt \<Rightarrow>
                (Inr \<lparr>plays = view_count info, comments = comment_count info,
                      likes = like_count info,
                      pub_date = Some (strftime dt ''%Y-%m-%d''),
                      pub_time = Some (strftime dt ''%H:%M:%S''),
                      insta_id = (case uploader info of
                                    None \<Rightarrow> uploader_id info
                                  | Some u \<Rightarrow> if u \<noteq> [] then Some u
                                              else uploader_id info)\<rparr>, w'))"
  using assms
  by (simp add: get_instagram_metadata_def Let_def bind_def formatted_present
      split: sum.splits)

section \<open>The dates of the metadata fetcher\<close>

text \<open>
  C8, as the specification states it: whenever the record of the extraction library has a
  publish timestamp, \<open>get_instagram_metadata\<close> returns a date of the shape \<^verbatim>\<open>YYYY-MM-DD\<close>
  and a time. On a server whose local time is UTC: for the timestamp 0, the first second
  of 1970, the record returned has neither; for the timestamp 253402300800, the first
  second of the year 10000, \<^verbatim>\<open>datetime.fromtimestamp\<close> raises
  \<^verbatim>\<open>ValueError: year 10000 is out of range\<close> and no record is returned; for the timestamp
  -30610224001, the last second of the year 999, the date returned is \<^verbatim>\<open>999-12-31\<close>, with
  a year of three digits.
\<close>

theorem get_instagram_metadata_dates_counterexample:
  "fst (get_instagram_metadata
          (\<lambda>w url cookie_file.
             (Inr \<lparr>timestamp = Some 0, view_count = Some 100, comment_count = Some 2,
                   like_count = Some 10, uploader = Some ''someone'', uploader_id = None\<rparr>, w))
          \<lparr>gmtoff = \<lambda>u. 0, range_error = \<lambda>t. ValueError ''year 10000 is out of range''\<rparr>
          (0::nat) ''https://www.instagram.com/reel/abc/'' ''main'') =
     Inr \<lparr>plays = Some 100, comments = Some 2, likes = Some 10, pub_date = None,
          pub_time = None, insta_id = Some ''someone''\<rparr> \<and>
   fst (get_instagram_metadata
          (\<lambda>w url cookie_file.
             (Inr \<lparr>timestamp = Some 253402300800, view_count = Some 100,
                   comment_count = Some 2, like_count = Some 10, uploader = Some ''someone'',
                   uploader_id = None\<rparr>, w))
          \<lparr>gmtoff = \<lambda>u. 0, range_error = \<lambda>t. ValueError ''year 10000 is out of range''\<rparr>
          (0::nat) ''https://www.instagram.com/reel/abc/'' ''main'') =
     Inl (ValueError ''year 10000 is out of range'') \<and>
   fst (get_instagram_metadata
          (\<lambda>w url cookie_file.
             (Inr \<lparr>timestamp = Some (- 30610224001), view_count = Some 100,
                   comment_count = Some 2, like_count = Some 10, uploader = Some ''someone'',
                   uploader_id = None\<rparr>, w))
          \<lparr>gmtoff = \<lambda>u. 0, range_error = \<lambda>t. ValueError ''year 10000 is out of range''\<rparr>
          (0::nat) ''https://www.instagram.com/reel/abc/'' ''main'') =
     Inr \<lparr>plays = Some 100, comments = Some 2, likes = Some 10,
          pub_date = Some ''999-12-31'', pub_time = Some ''23:59:59'',
          insta_id = Some ''someone''\<rparr> \<and>
   \<not> matches ''DDDD-DD-DD'' ''999-12-31''"
  (is "?zero \<and> ?late \<and> ?early \<and> ?shape")
proof -
  have zero: ?zero
    by code_simp
  have late: ?late
    by code_simp
  have early: ?early
    by code_simp
  have shape: ?shape
    by code_simp
  from zero late early shape show ?thesis
    by (intro conjI)
qed

text \<open>
  C8, amended. Let the extraction succeed. If its record has a publish timestamp other than
  0 that \<^verbatim>\<open>datetime.fromtimestamp\<close> accepts, then \<open>get_instagram_metadata\<close> returns a record
  whose \<^verbatim>\<open>pub_date\<close> and \<^verbatim>\<open>pub_time\<close> print the calendar date and the time of day of the
  instant in the local time zone of the server: the date of the day number of the local
  time, and its seconds within the day as hours, minutes and seconds. \<^verbatim>\<open>pub_time\<close> has the
  shape \<^verbatim>\<open>HH:MM:SS\<close>; \<^verbatim>\<open>pub_date\<close> has the shape \<^verbatim>\<open>YYYY-MM-DD\<close> when the local year is 1000
  or later. If the timestamp is absent, a record is returned that has neither \<^verbatim>\<open>pub_date\<close>
  nor \<^verbatim>\<open>pub_time\<close>.
\<close>

theorem get_instagram_metadata_dates:
  assumes "extract_info w url cookie_file = (Inr info, w')"
  shows
    "(\<forall>t dt. timestamp info = Some t \<and> t \<noteq> 0 \<and> fromtimestamp tz t = Inr dt \<longrightarrow>
        (\<exists>m. get_instagram_metadata extract_info tz w url cookie_file = (Inr m, w') \<and>
             pub_date m = Some (strftime dt ''%Y-%m-%d'') \<and>
             pub_time m = Some (strftime dt ''%H:%M:%S'') \<and>
             (1000 \<le> year dt \<longrightarrow> matches ''DDDD-DD-DD'' (strftime dt ''%Y-%m-%d'')) \<and>
             matches ''DD:DD:DD'' (strftime dt ''%H:%M:%S'') \<and>
             (year dt, month dt, day dt) = ord2ymd ((t + gmtoff tz t) div 86400 + 719163) \<and>
             hour dt = (t + gmtoff tz t) mod 86400 div 3600 \<and>
             minute dt = (t + gmtoff tz t) mod 86400 mod 3600 div 60 \<and>
             second dt = (t + gmtoff tz t) mod 86400 mod 60)) \<and>
     (timestamp info = None \<longrightarrow>
        (\<exists>m. get_instagram_metadata extract_info tz w url cookie_file = (Inr m, w') \<and>
             pub_date m = None \<and> pub_time m = None))"
  (is "?present \<and> ?absent")
proof -
  have present: ?present
  proof (intro allI impI, elim conjE)
    fix t dt
    assume t: "timestamp info = Some t" "t \<noteq> 0"
      and dt: "fromtimestamp tz t = Inr dt"
    let ?m = "\<lparr>plays = view_count info, comments = comment_count info,
                 likes = like_count info,
                 pub_date = Some (strftime dt ''%Y-%m-%d''),
                 pub_time = Some (strftime dt ''%H:%M:%S''),
                 insta_id = (case uploader info of
                               None \<Rightarrow> uploader_id info
                             | Some u \<Rightarrow> if u \<noteq> [] then Some u
                                         else uploader_id info)\<rparr>"
    have m: "get_instagram_metadata extract_info tz w url cookie_file = (Inr ?m, w')"
      unfolding get_instagram_metadata_present
          [where extract_info = extract_info and w = w and url = url and
            cookie_file = cookie_file, OF assms t]
      by (simp add: dt)
    have fields: "pub_date ?m = Some (strftime dt ''%Y-%m-%d'')"
      "pub_time ?m = Some (strftime dt ''%H:%M:%S'')"
      by simp_all
    from m fields fromtimestamp_shape [OF dt] fromtimestamp_fields [OF dt]
    show "\<exists>m. get_instagram_metadata extract_info tz w url cookie_file = (Inr m, w') \<and>
             pub_date m = Some (strftime dt ''%Y-%m-%d'') \<and>
             pub_time m = Some (strftime dt ''%H:%M:%S'') \<and>
             (1000 \<le> year dt \<longrightarrow> matches ''DDDD-DD-DD'' (strftime dt ''%Y-%m-%d'')) \<and>
             matches ''DD:DD:DD'' (strftime dt ''%H:%M:%S'') \<and>
             (year dt, month dt, day dt) = ord2ymd ((t + gmtoff tz t) div 86400 + 719163) \<and>
             hour dt = (t + gmtoff tz t) mod 86400 div 3600 \<and>
             minute dt = (t + gmtoff tz t) mod 86400 mod 3600 div 60 \<and>
             second dt = (t + gmtoff tz t) mod 86400 mod 60"
      by blast
  qed
  have absent: ?absent
  proof
    assume "timestamp info = None"
    then have "timestamp info = None \<or> timestamp info = Some 0"
      by simp
    from get_instagram_metadata_absent
           [where extract_info = extract_info and w = w and url = url and
             cookie_file = cookie_file, OF assms this]
    show "\<exists>m. get_instagram_metadata extract_info tz w url cookie_file = (Inr m, w') \<and>
             pub_date m = None \<and> pub_time m = None"
      by simp
  qed
  from present absent show ?thesis
    by (intro conjI)
qed

theorem get_instagram_metadata_dates_witness:
  "fst (get_instagram_metadata
          (\<lambda>w url cookie_file.
             (Inr \<lparr>timestamp = Some 1700000000, view_count = Some 100, comment_count = Some 2,
                   like_count = Some 10, uploader = Some ''someone'', uploader_id = None\<rparr>, w))
          \<lparr>gmtoff = \<lambda>u. 3600, range_error = \<lambda>t. ValueError ''year 10000 is out of range''\<rparr>
          (0::nat) ''https://www.instagram.com/reel/abc/'' ''main'') =
     Inr \<lparr>plays = Some 100, comments = Some 2, likes = Some 10,
          pub_date = Some ''2023-11-14'', pub_time = Some ''23:13:20'',
          insta_id = Some ''someone''\<rparr> \<and>
   matches ''DDDD-DD-DD'' ''2023-11-14'' \<and> matches ''DD:DD:DD'' ''23:13:20'' \<and>
   (\<exists>m. get_instagram_metadata
          (\<lambda>w url cookie_file.
             (Inr \<lparr>timestamp = None, view_count = Some 100, comment_count = Some 2,
                   like_count = Some 10, uploader = Some ''someone'', uploader_id = None\<rparr>, w))
          \<lparr>gmtoff = \<lambda>u. 3600, range_error = \<lambda>t. ValueError ''year 10000 is out of range''\<rparr>
          (0::nat) ''https://www.instagram.com/reel/abc/'' ''main'' = (Inr m, 0) \<and>
        pub_date m = None \<and> pub_time m = None)"
  (is "?fetched \<and> ?date \<and> ?time \<and> ?absent")
proof -
  let ?url = "''https://www.instagram.com/reel/abc/''"
  let ?tz = "\<lparr>gmtoff = \<lambda>u::int. 3600::int,
              range_error = \<lambda>t::int. ValueError ''year 10000 is out of range''\<rparr>"
  let ?dt = "\<lparr>year = 2023, month = 11, day = 14, hour = 23, minute = 13, second = 20\<rparr>"
  have dt: "fromtimestamp ?tz 1700000000 = Inr ?dt"
    by code_simp
  have printed: "strftime ?dt ''%Y-%m-%d'' = ''2023-11-14''"
    "strftime ?dt ''%H:%M:%S'' = ''23:13:20''"
    by code_simp+
  have present: "?fetched \<and> ?date \<and> ?time"
  proof -
    let ?info = "\<lparr>timestamp = Some 1700000000, view_count = Some 100,
                   comment_count = Some 2, like_count = Some 10, uploader = Some ''someone'',
                   uploader_id = None\<rparr>"
    let ?E = "\<lambda>(w::nat) (url::string) (cookie_file::string). (Inr ?info :: exn + info, w)"
    have e: "?E 0 ?url ''main'' = (Inr ?info, 0)"
      by simp
    note inst = get_instagram_metadata_dates
      [where extract_info = ?E and w = 0 and url = ?url and cookie_file = "''main''" and
        tz = ?tz, OF e]
    have "timestamp ?info = Some 1700000000 \<and> (1700000000::int) \<noteq> 0 \<and>
          fromtimestamp ?tz 1700000000 = Inr ?dt"
      using dt by simp
    from inst [THEN conjunct1, THEN spec, THEN spec, THEN mp, OF this]
    obtain m where m: "get_instagram_metadata ?E ?tz 0 ?url ''main'' = (Inr m, 0)"
      and dates: "pub_date m = Some (strftime ?dt ''%Y-%m-%d'')"
        "pub_time m = Some (strftime ?dt ''%H:%M:%S'')"
      and shapes: "1000 \<le> year ?dt \<longrightarrow> matches ''DDDD-DD-DD'' (strftime ?dt ''%Y-%m-%d'')"
        "matches ''DD:DD:DD'' (strftime ?dt ''%H:%M:%S'')"
      by blast
    from get_instagram_metadata_fields [OF m]
    have "plays m = Some 100" "comments m = Some 2" "likes m = Some 10"
      "insta_id m = Some ''someone''"
      by auto
    with dates have "m = \<lparr>plays = Some 100, comments = Some 2, likes = Some 10,
            pub_date = Some ''2023-11-14'', pub_time = Some ''23:13:20'',
            insta_id = Some ''someone''\<rparr>"
      unfolding printed by (cases m) simp
    with m have r: ?fetched
      by simp
    from shapes have "matches ''DDDD-DD-DD'' ''2023-11-14''" "matches ''DD:DD:DD'' ''23:13:20''"
      unfolding printed by simp_all
    with r show ?thesis
      by (intro conjI)
  qed
  have absent: ?absent
  proof -
    let ?info = "\<lparr>timestamp = None, view_count = Some 100, comment_count = Some 2,
                   like_count = Some 10, uploader = Some ''someone'', uploader_id = None\<rparr>"
    let ?E = "\<lambda>(w::nat) (url::string) (cookie_file::string). (Inr ?info :: exn + info, w)"
    have e: "?E 0 ?url ''main'' = (Inr ?info, 0)"
      by simp
    note inst = get_instagram_metadata_dates
      [where extract_info = ?E and w = 0 and url = ?url and cookie_file = "''main''" and
        tz = ?tz, OF e]
    have "timestamp ?info = None"
      by simp
    with inst show ?thesis
      by blast
  qed
  from present absent show ?thesis
    by simp
qed

text \<open>
  C10, as the specification states it: for every timestamp other than 0, both fields are
  populated. On a server whose local time is UTC, for the timestamp 253402300800, the first
  second of the year 10000, \<^verbatim>\<open>datetime.fromtimestamp\<close> raises
  \<^verbatim>\<open>ValueError: year 10000 is out of range\<close>, the exception leaves
  \<open>get_instagram_metadata\<close>, and no field is populated.
\<close>

theorem get_instagram_metadata_truthiness_counterexample:
  "get_instagram_metadata
     (\<lambda>w url cookie_file.
        (Inr \<lparr>timestamp = Some 253402300800, view_count = Some 100, comment_count = None,
              like_count = Some 10, uploader = None, uploader_id = Some ''12345''\<rparr>, w))
     \<lparr>gmtoff = \<lambda>u. 0, range_error = \<lambda>t. ValueError ''year 10000 is out of range''\<rparr>
     (0::nat) ''https://www.instagram.com/reel/abc/'' ''main'' =
     (Inl (ValueError ''year 10000 is out of range''), 0)"
  by code_simp

text \<open>
  C10, amended. The test \<^verbatim>\<open>if ts\<close> takes the timestamp 0 as it takes a missing one: the
  record returned is the same, with neither \<^verbatim>\<open>pub_date\<close> nor \<^verbatim>\<open>pub_time\<close>. For every other
  timestamp that \<^verbatim>\<open>datetime.fromtimestamp\<close> accepts, a record is returned that has both;
  for one that it rejects, its exception leaves \<open>get_instagram_metadata\<close>.
\<close>

theorem get_instagram_metadata_truthiness:
  assumes "extract_info w url cookie_file = (Inr info, w')"
  shows
    "(timestamp info = Some 0 \<or> timestamp info = None \<longrightarrow>
        get_instagram_metadata extract_info tz w url cookie_file =
          (Inr \<lparr>plays = view_count info, comments = comment_count info,
                likes = like_count info, pub_date = None, pub_time = None,
                insta_id = (case uploader info of
                              None \<Rightarrow> uploader_id info
                            | Some u \<Rightarrow> if u \<noteq> [] then Some u else uploader_id info)\<rparr>,
           w')) \<and>
     (\<forall>t dt. timestamp info = Some t \<and> t \<noteq> 0 \<and> fromtimestamp tz t = Inr dt \<longrightarrow>
        (\<exists>m d c. get_instagram_metadata extract_info tz w url cookie_file = (Inr m, w') \<and>
                 pub_date m = Some d \<and> pub_time m = Some c)) \<and>
     (\<forall>t e. timestamp info = Some t \<and> t \<noteq> 0 \<and> fromtimestamp tz t = Inl e \<longrightarrow>
        get_instagram_metadata extract_info tz w url cookie_file = (Inl e, w'))"
  (is "?zero \<and> ?accepted \<and> ?rejected")
proof -
  have zero: ?zero
  proof
    assume "timestamp info = Some 0 \<or> timestamp info = None"
    then have "timestamp info = None \<or> timestamp info = Some 0"
      by blast
    from get_instagram_metadata_absent
           [where extract_info = extract_info and w = w and url = url and
             cookie_file = cookie_file, OF assms this]
    show "get_instagram_metadata extract_info tz w url cookie_file =
          (Inr \<lparr>plays = view_count info, comments = comment_count info,
                likes = like_count info, pub_date = None, pub_time = None,
                insta_id = (case uploader info of
                              None \<Rightarrow> uploader_id info
                            | Some u \<Rightarrow> if u \<noteq> [] then Some u else uploader_id info)\<rparr>,
           w')" .
  qed
  have accepted: ?accepted
  proof (intro allI impI, elim conjE)
    fix t dt
    assume t: "timestamp info = Some t" "t \<noteq> 0"
      and dt: "fromtimestamp tz t = Inr dt"
    show "\<exists>m d c. get_instagram_metadata extract_info tz w url cookie_file = (Inr m, w') \<and>
                 pub_date m = Some d \<and> pub_time m = Some c"
      unfolding get_instagram_metadata_present
          [where extract_info = extract_info and w = w and url = url and
            cookie_file = cookie_file, OF assms t]
      by (simp add: dt)
  qed
  have rejected: ?rejected
  proof (intro allI impI, elim conjE)
    fix t e
    assume t: "timestamp info = Some t" "t \<noteq> 0"
      and e: "fromtimestamp tz t = Inl e"
    show "get_instagram_metadata extract_info tz w url cookie_file = (Inl e, w')"
      unfolding get_instagram_metadata_present
          [where extract_info = extract_info and w = w and url = url and
            cookie_file = cookie_file, OF assms t]
      by (simp add: e)
  qed
  from zero accepted rejected show ?thesis
    by (intro conjI)
qed

theorem get_instagram_metadata_truthiness_witness:
  "get_instagram_metadata
     (\<lambda>w url cookie_file.
        (Inr \<lparr>timestamp = Some 0, view_count = Some 100, comment_count = None,
              like_count = Some 10, uploader = None, uploader_id = Some ''12345''\<rparr>, w))
     \<lparr>gmtoff = \<lambda>u. 0, range_error = \<lambda>t. ValueError ''year 10000 is out of range''\<rparr>
     (0::nat) ''https://www.instagram.com/reel/abc/'' ''main'' =
     (Inr \<lparr>plays = Some 100, comments = None, likes = Some 10, pub_date = None,
           pub_time = None, insta_id = Some ''12345''\<rparr>, 0) \<and>
   (\<exists>m d c. get_instagram_metadata
          (\<lambda>w url cookie_file.
             (Inr \<lparr>timestamp = Some 1, view_count = Some 100, comment_count = None,
                   like_count = Some 10, uploader = None, uploader_id = Some ''12345''\<rparr>, w))
          \<lparr>gmtoff = \<lambda>u. 0, range_error = \<lambda>t. ValueError ''year 10000 is out of range''\<rparr>
          (0::nat) ''https://www.instagram.com/reel/abc/'' ''main'' = (Inr m, 0) \<and>
        pub_date m = Some d \<and> pub_time m = Some c) \<and>
   get_instagram_metadata
     (\<lambda>w url cookie_file.
        (Inr \<lparr>timestamp = Some 253402300801, view_count = Some 100, comment_count = None,
              like_count = Some 10, uploader = None, uploader_id = Some ''12345''\<rparr>, w))
     \<lparr>gmtoff = \<lambda>u. 0, range_error = \<lambda>t. ValueError ''year 10000 is out of range''\<rparr>
     (0::nat) ''https://www.instagram.com/reel/abc/'' ''main'' =
     (Inl (ValueError ''year 10000 is out of range''), 0)"
  (is "?zero \<and> ?accepted \<and> ?rejected")
proof -
  let ?url = "''https://www.instagram.com/reel/abc/''"
  let ?tz = "\<lparr>gmtoff = \<lambda>u::int. 0::int,
              range_error = \<lambda>t::int. ValueError ''year 10000 is out of range''\<rparr>"
  have zero: ?zero
  proof -
    let ?info = "\<lparr>timestamp = Some 0, view_count = Some 100, comment_count = None,
                   like_count = Some 10, uploader = None, uploader_id = Some ''12345''\<rparr>"
    let ?E = "\<lambda>(w::nat) (url::string) (cookie_file::string). (Inr ?info :: exn + info, w)"
    have e: "?E 0 ?url ''main'' = (Inr ?info, 0)"
      by simp
    have "timestamp ?info = Some 0 \<or> timestamp ?info = None"
      by simp
    from get_instagram_metadata_truthiness
      [where extract_info = ?E and w = 0 and url = ?url and cookie_file = "''main''" and
        tz = ?tz, OF e, THEN conjunct1, THEN mp, OF this]
    show ?thesis
      by simp
  qed
  have accepted: ?accepted
  proof -
    let ?info = "\<lparr>timestamp = Some 1, view_count = Some 100, comment_count = None,
                   like_count = Some 10, uploader = None, uploader_id = Some ''12345''\<rparr>"
    let ?E = "\<lambda>(w::nat) (url::string) (cookie_file::string). (Inr ?info :: exn + info, w)"
    let ?dt = "\<lparr>year = 1970, month = 1, day = 1, hour = 0, minute = 0, second = 1\<rparr>"
    have e: "?E 0 ?url ''main'' = (Inr ?info, 0)"
      by simp
    have dt: "fromtimestamp ?tz 1 = Inr ?dt"
      by code_simp
    have "timestamp ?info = Some 1 \<and> (1::int) \<noteq> 0 \<and> fromtimestamp ?tz 1 = Inr ?dt"
      using dt by simp
    from get_instagram_metadata_truthiness
      [where extract_info = ?E and w = 0 and url = ?url and cookie_file = "''main''" and
        tz = ?tz, OF e, THEN conjunct2, THEN conjunct1, THEN spec, THEN spec, THEN mp,
        OF this]
    show ?thesis .
  qed
  have rejected: ?rejected
  proof -
    let ?info = "\<lparr>timestamp = Some 253402300801, view_count = Some 100,
                   comment_count = None, like_count = Some 10, uploader = None,
                   uploader_id = Some ''12345''\<rparr>"
    let ?E = "\<lambda>(w::nat) (url::string) (cookie_file::string). (Inr ?info :: exn + info, w)"
    let ?e = "ValueError ''year 10000 is out of range''"
    have e: "?E 0 ?url ''main'' = (Inr ?info, 0)"
      by simp
    have rej: "fromtimestamp ?tz 253402300801 = Inl ?e"
      by code_simp
    have "timestamp ?info = Some 253402300801 \<and> (253402300801::int) \<noteq> 0 \<and>
          fromtimestamp ?tz 253402300801 = Inl ?e"
      using rej by simp
    from get_instagram_metadata_truthiness
      [where extract_info = ?E and w = 0 and url = ?url and cookie_file = "''main''" and
        tz = ?tz, OF e, THEN conjunct2, THEN conjunct2, THEN spec, THEN spec, THEN mp,
        OF this]
    show ?thesis .
  qed
  from zero accepted rejected show ?thesis
    by (intro conjI)
qed
end
